theory Spec2Isabelle
  imports Complex_Main "HOL-Library.Log_Nat"
begin

section \<open>GreenCart Logistics: the simulation endpoint of server.js\<close>

text \<open>
  The development follows \<^verbatim>\<open>src/server.js\<close>: the validation middleware
  \<^verbatim>\<open>validateSimulationInputs\<close>, the helpers \<^verbatim>\<open>calculateDeliveryTime\<close> and
  \<^verbatim>\<open>calculateFuelCost\<close>, and the handler of \<^verbatim>\<open>POST /api/simulation\<close>.

  Conventions of the embedding:
  \<^item> a number stored in a document or sent in the request is an exact rational
    (\<^typ>\<open>rat\<close>), and the arithmetic on distances and amounts of money is exact;
  \<^item> a number computed by the handler that can be \<^verbatim>\<open>NaN\<close> is a \<open>jsnum\<close>;
  \<^item> the efficiency score is computed in IEEE binary64, with every operation rounded
    to the nearest double (\<open>fl\<close>), because \<^verbatim>\<open>Math.round\<close> turns the rounding error
    of that computation into a different hundredth;
  \<^item> a field of the JSON request body is \<open>None\<close> when it is absent, and otherwise has
    the type the handler expects of it (a number, a string);
  \<^item> an HTTP response is a value of type \<open>response\<close>; a thrown exception is the value
    \<open>None\<close> of the function that throws, turned into the 500 response by the handler's
    \<^verbatim>\<open>catch\<close>;
  \<^item> the MongoDB collections are lists of documents, in the order \<^verbatim>\<open>find()\<close> returns
    them; the request is taken to be authenticated.
\<close>

subsection \<open>Numbers\<close>

text \<open>A computed number: a value, or \<^verbatim>\<open>NaN\<close>. \<^verbatim>\<open>NaN\<close> absorbs arithmetic and fails every comparison.\<close>

datatype jsnum = Val rat | NaN

fun js_add :: "jsnum \<Rightarrow> jsnum \<Rightarrow> jsnum" where
  "js_add (Val x) (Val y) = Val (x + y)"
| "js_add _ _ = NaN"

fun js_sub :: "jsnum \<Rightarrow> jsnum \<Rightarrow> jsnum" where
  "js_sub (Val x) (Val y) = Val (x - y)"
| "js_sub _ _ = NaN"

fun js_mul :: "jsnum \<Rightarrow> jsnum \<Rightarrow> jsnum" where
  "js_mul (Val x) (Val y) = Val (x * y)"
| "js_mul _ _ = NaN"

fun js_gt :: "jsnum \<Rightarrow> jsnum \<Rightarrow> bool" where
  "js_gt (Val x) (Val y) = (x > y)"
| "js_gt _ _ = False"

text \<open>\<^verbatim>\<open>Math.round\<close>: the nearest integer, a half rounded up; \<^verbatim>\<open>NaN\<close> for \<^verbatim>\<open>NaN\<close>.\<close>

definition js_round :: "rat \<Rightarrow> int" where
  "js_round x = \<lfloor>x + 1 / 2\<rfloor>"

fun math_round :: "jsnum \<Rightarrow> jsnum" where
  "math_round (Val x) = Val (of_int (js_round x))"
| "math_round NaN = NaN"

text \<open>
  Rounding to the nearest double, a tie going to the even significand. \<open>ilog2 y\<close> is
  the exponent \<open>e\<close> with \<open>2 powi e \<le> y < 2 powi (e + 1)\<close>; the doubles between these
  two powers are the multiples of \<open>2 powi (e - 52)\<close>. The range of the exponent is not
  limited: the numbers rounded here lie far inside it.
\<close>

definition ilog2 :: "rat \<Rightarrow> int" where
  "ilog2 y = (if 1 \<le> y then bitlen \<lfloor>y\<rfloor> - 1 else - bitlen (\<lceil>1 / y\<rceil> - 1))"

definition rne :: "rat \<Rightarrow> int" where
  "rne y =
     (let f = \<lfloor>y\<rfloor>; r = y - of_int f
      in if r < 1 / 2 then f else if 1 / 2 < r then f + 1 else if even f then f else f + 1)"

definition fl :: "rat \<Rightarrow> rat" where
  "fl x =
     (if x = 0 then 0
      else let u = 2 powi (ilog2 \<bar>x\<bar> - 52) in of_int (rne (x / u)) * u)"

subsection \<open>Documents\<close>

text \<open>The Mongoose schemas. \<open>driver_id\<close> is the document's \<^verbatim>\<open>_id\<close>.\<close>

record driver =
  driver_id :: nat
  name :: string
  currentShiftHours :: rat
  past7DayWorkHours :: rat
  isFatigued :: bool

datatype traffic = Low | Medium | High

record route =
  routeId :: string
  distance :: rat
  trafficLevel :: traffic
  baseTime :: rat

record order =
  orderId :: string
  valueRs :: rat
  assignedRoute :: string
  deliveryTimestamp :: int
  assignedDriver :: "nat option"
  actualDeliveryTime :: "jsnum option"
  isOnTime :: bool
  penalty :: rat
  bonus :: rat

text \<open>The \<^verbatim>\<open>results\<close> object of a run, and the argument of \<^verbatim>\<open>new SimulationResult\<close>.\<close>

record results =
  res_totalProfit :: jsnum
  res_efficiencyScore :: rat
  res_onTimeDeliveries :: nat
  res_totalDeliveries :: nat
  res_fuelCost :: jsnum
  res_penalties :: rat
  res_bonuses :: int

record simulation_result =
  in_availableDrivers :: rat
  in_startTime :: string
  in_maxHoursPerDay :: rat
  sr_results :: results
  sr_deliveryBreakdown :: "(string \<times> int) list"
  sr_fuelCostBreakdown :: "(string \<times> jsnum) list"

record store =
  driverColl :: "driver list"
  routeColl :: "route list"
  orderColl :: "order list"
  simulationResults :: "simulation_result list"

subsection \<open>Responses\<close>

text \<open>
  \<open>Status200\<close> carries \<^verbatim>\<open>results\<close>, \<^verbatim>\<open>deliveryBreakdown\<close>, \<^verbatim>\<open>fuelCostBreakdown\<close> and
  \<^verbatim>\<open>simulationId\<close>; a breakdown is the list of its \<^verbatim>\<open>{label, value}\<close> entries.
\<close>

datatype response =
    Status400 string
  | Status500 string
  | Status200 results "(string \<times> int) list" "(string \<times> jsnum) list" nat

datatype middleware_result = Next | Ended response

subsection \<open>The regular expression of the start time\<close>

text \<open>
  The fragment of JavaScript regular expressions that \<^verbatim>\<open>timeRegex\<close> uses: a character
  class given by a range, a literal character, concatenation, alternation and the
  optional \<^verbatim>\<open>?\<close>. \<open>rx_match r s\<close> lists what is left of \<open>s\<close> after each way of matching
  \<open>r\<close> against a prefix of it, in the order a backtracking matcher tries them.
\<close>

datatype rx =
    Cls char char
  | Chr char
  | Seq rx rx
  | Alt rx rx
  | Opt rx

fun rx_match :: "rx \<Rightarrow> string \<Rightarrow> string list" where
  "rx_match (Cls a b) s =
     (case s of [] \<Rightarrow> []
      | c # cs \<Rightarrow> if (of_char a :: nat) \<le> of_char c \<and> (of_char c :: nat) \<le> of_char b
                  then [cs] else [])"
| "rx_match (Chr a) s = (case s of [] \<Rightarrow> [] | c # cs \<Rightarrow> if c = a then [cs] else [])"
| "rx_match (Seq r1 r2) s = concat (map (rx_match r2) (rx_match r1 s))"
| "rx_match (Alt r1 r2) s = rx_match r1 s @ rx_match r2 s"
| "rx_match (Opt r) s = rx_match r s @ [s]"

text \<open>\<^verbatim>\<open>/^r$/.test(s)\<close>: some way of matching \<open>r\<close> consumes all of \<open>s\<close>.\<close>

definition rx_test_anchored :: "rx \<Rightarrow> string \<Rightarrow> bool" where
  "rx_test_anchored r s = ([] \<in> set (rx_match r s))"

text \<open>\<^verbatim>\<open>const timeRegex = /^([0-1]?[0-9]|2[0-3]):[0-5][0-9]$/;\<close>\<close>

definition timeRegex :: rx where
  "timeRegex =
     Seq (Alt (Seq (Opt (Cls CHR ''0'' CHR ''1'')) (Cls CHR ''0'' CHR ''9''))
              (Seq (Chr CHR ''2'') (Cls CHR ''0'' CHR ''3'')))
         (Seq (Chr CHR '':'') (Seq (Cls CHR ''0'' CHR ''5'') (Cls CHR ''0'' CHR ''9'')))"

definition timeRegex_test :: "string \<Rightarrow> bool" where
  "timeRegex_test s = rx_test_anchored timeRegex s"

text \<open>
  Two formats of a time of day, for comparison with \<open>timeRegex\<close>. \<open>spec_HHMM\<close> follows
  the specification's words: two digits of hours from 00 to 23, a colon, two digits of
  minutes from 00 to 59. \<open>one_digit_hour\<close> is the same with a single digit of hours.
\<close>

definition in_range :: "char \<Rightarrow> char \<Rightarrow> char \<Rightarrow> bool" where
  "in_range a b c = ((of_char a :: nat) \<le> of_char c \<and> (of_char c :: nat) \<le> of_char b)"

definition hour_ok :: "char \<Rightarrow> char \<Rightarrow> bool" where
  "hour_ok h1 h2 =
     ((in_range CHR ''0'' CHR ''1'' h1 \<and> in_range CHR ''0'' CHR ''9'' h2)
      \<or> (h1 = CHR ''2'' \<and> in_range CHR ''0'' CHR ''3'' h2))"

definition minute_ok :: "char \<Rightarrow> char \<Rightarrow> bool" where
  "minute_ok m1 m2 = (in_range CHR ''0'' CHR ''5'' m1 \<and> in_range CHR ''0'' CHR ''9'' m2)"

fun spec_HHMM :: "string \<Rightarrow> bool" where
  "spec_HHMM [h1, h2, c, m1, m2] = (hour_ok h1 h2 \<and> c = CHR '':'' \<and> minute_ok m1 m2)"
| "spec_HHMM _ = False"

fun one_digit_hour :: "string \<Rightarrow> bool" where
  "one_digit_hour [h, c, m1, m2] =
     (in_range CHR ''0'' CHR ''9'' h \<and> c = CHR '':'' \<and> minute_ok m1 m2)"
| "one_digit_hour _ = False"

subsection \<open>validateSimulationInputs\<close>

record sim_body =
  availableDrivers :: "rat option"
  startTime :: "string option"
  maxHoursPerDay :: "rat option"

text \<open>
  JavaScript's \<^verbatim>\<open>!x\<close>: an absent field (\<^verbatim>\<open>undefined\<close>), the number 0 and the empty
  string are falsy.
\<close>

definition not_num :: "rat option \<Rightarrow> bool" where
  "not_num x = (case x of None \<Rightarrow> True | Some v \<Rightarrow> v = 0)"

definition not_str :: "string option \<Rightarrow> bool" where
  "not_str x = (case x of None \<Rightarrow> True | Some v \<Rightarrow> v = [])"

text \<open>
  Comparing \<^verbatim>\<open>undefined\<close> with a number is false either way, and
  \<^verbatim>\<open>timeRegex.test(undefined)\<close> tests the string \<^verbatim>\<open>"undefined"\<close>.
\<close>

definition num_lt :: "rat option \<Rightarrow> rat \<Rightarrow> bool" where
  "num_lt x c = (case x of None \<Rightarrow> False | Some v \<Rightarrow> v < c)"

definition num_gt :: "rat option \<Rightarrow> rat \<Rightarrow> bool" where
  "num_gt x c = (case x of None \<Rightarrow> False | Some v \<Rightarrow> v > c)"

definition str_test :: "string option \<Rightarrow> bool" where
  "str_test x = (case x of None \<Rightarrow> timeRegex_test ''undefined'' | Some v \<Rightarrow> timeRegex_test v)"

definition validateSimulationInputs :: "sim_body \<Rightarrow> middleware_result" where
  "validateSimulationInputs body =
     (if not_num (availableDrivers body) \<or> not_str (startTime body)
         \<or> not_num (maxHoursPerDay body)
      then Ended (Status400
             ''Missing required parameters: availableDrivers, startTime, maxHoursPerDay'')
      else if num_lt (availableDrivers body) 1 \<or> num_gt (availableDrivers body) 50
      then Ended (Status400 ''Available drivers must be between 1 and 50'')
      else if num_lt (maxHoursPerDay body) 1 \<or> num_gt (maxHoursPerDay body) 24
      then Ended (Status400 ''Max hours per day must be between 1 and 24'')
      else if \<not> str_test (startTime body)
      then Ended (Status400 ''Start time must be in HH:MM format'')
      else Next)"

subsection \<open>Simulation logic\<close>

text \<open>
  The objects the helpers are called with: a driver document, a route document, or a
  member of \<^verbatim>\<open>Object.prototype\<close> (a function, or the prototype object itself), which
  has none of the properties the helpers read. Reading a property that is not there
  gives \<^verbatim>\<open>undefined\<close>, which is falsy and which arithmetic turns into \<^verbatim>\<open>NaN\<close>.
\<close>

datatype doc = DriverDoc driver | RouteDoc route | ProtoMember

fun doc_isFatigued :: "doc \<Rightarrow> bool" where
  "doc_isFatigued (DriverDoc d) = isFatigued d"
| "doc_isFatigued (RouteDoc r) = False"
| "doc_isFatigued ProtoMember = False"

fun doc_baseTime :: "doc \<Rightarrow> jsnum" where
  "doc_baseTime (RouteDoc r) = Val (baseTime r)"
| "doc_baseTime (DriverDoc d) = NaN"
| "doc_baseTime ProtoMember = NaN"

text \<open>
  \<^verbatim>\<open>const calculateDeliveryTime = (route, driver, baseTime) => ...\<close>: the first
  parameter is not used, the second is the object whose \<^verbatim>\<open>isFatigued\<close> is read.
\<close>

definition calculateDeliveryTime :: "doc \<Rightarrow> doc \<Rightarrow> jsnum \<Rightarrow> jsnum" where
  "calculateDeliveryTime route_arg driver_arg bt =
     (let deliveryTime = bt;
          deliveryTime = (if doc_isFatigued driver_arg then js_mul deliveryTime (Val (13 / 10))
                          else deliveryTime)
      in math_round deliveryTime)"

text \<open>\<^verbatim>\<open>calculateFuelCost\<close> on a route document.\<close>

definition calculateFuelCost :: "route \<Rightarrow> rat" where
  "calculateFuelCost r =
     (let baseCost = 5 * distance r;
          baseCost = (if trafficLevel r = High then baseCost + 2 * distance r else baseCost)
      in baseCost)"

text \<open>
  \<^verbatim>\<open>calculateFuelCost\<close> on any object: without a \<^verbatim>\<open>distance\<close> the product
  \<^verbatim>\<open>5 * route.distance\<close> is \<^verbatim>\<open>NaN\<close>, the traffic level is not \<^verbatim>\<open>'High'\<close>, and the
  result is \<^verbatim>\<open>NaN\<close>.
\<close>

fun calculateFuelCost_of :: "doc \<Rightarrow> jsnum" where
  "calculateFuelCost_of (RouteDoc r) = Val (calculateFuelCost r)"
| "calculateFuelCost_of (DriverDoc d) = NaN"
| "calculateFuelCost_of ProtoMember = NaN"

definition traffic_name :: "traffic \<Rightarrow> string" where
  "traffic_name t = (case t of Low \<Rightarrow> ''Low'' | Medium \<Rightarrow> ''Medium'' | High \<Rightarrow> ''High'')"

text \<open>\<^verbatim>\<open>route.trafficLevel\<close> as a property key.\<close>

fun doc_trafficKey :: "doc \<Rightarrow> string" where
  "doc_trafficKey (RouteDoc r) = traffic_name (trafficLevel r)"
| "doc_trafficKey (DriverDoc d) = ''undefined''"
| "doc_trafficKey ProtoMember = ''undefined''"

subsection \<open>The handler of POST /api/simulation\<close>

text \<open>
  The variables the \<^verbatim>\<open>orders.map\<close> callback updates. Penalties and bonuses are never
  \<^verbatim>\<open>NaN\<close>. \<^verbatim>\<open>fuelCostByTraffic\<close> is an object: its entries in the order of insertion.
\<close>

record totals =
  totalProfit :: jsnum
  totalFuelCost :: jsnum
  totalPenalties :: rat
  totalBonuses :: rat
  onTimeDeliveries :: nat
  fuelCostByTraffic :: "(string \<times> jsnum) list"

definition totals0 :: totals where
  "totals0 = \<lparr>totalProfit = Val 0, totalFuelCost = Val 0, totalPenalties = 0,
              totalBonuses = 0, onTimeDeliveries = 0,
              fuelCostByTraffic = [(''Low'', Val 0), (''Medium'', Val 0), (''High'', Val 0)]\<rparr>"

text \<open>
  \<^verbatim>\<open>obj[key] += v\<close>: the entry of an existing key is added to; a new key is appended
  with \<^verbatim>\<open>undefined + v\<close>, which is \<^verbatim>\<open>NaN\<close>.
\<close>

fun add_to_key :: "string \<Rightarrow> jsnum \<Rightarrow> (string \<times> jsnum) list \<Rightarrow> (string \<times> jsnum) list" where
  "add_to_key k v [] = [(k, NaN)]"
| "add_to_key k v ((k', w) # kvs) =
     (if k' = k then (k', js_add w v) # kvs else (k', w) # add_to_key k v kvs)"

text \<open>
  What the callback returns: the order document itself, or a new object made of the
  order's fields, the computed ones and \<^verbatim>\<open>fuelCost\<close>.
\<close>

datatype processed_order = Same order | Fresh order jsnum

text \<open>
  \<^verbatim>\<open>Driver.find().limit(n)\<close> for a whole number \<open>n\<close>: the first \<open>n\<close> documents, and all
  of them for a limit of 0.
\<close>

definition limit_docs :: "nat \<Rightarrow> 'a list \<Rightarrow> 'a list" where
  "limit_docs n xs = (if n = 0 then xs else take n xs)"

text \<open>
  \<^verbatim>\<open>const routeMap = {}\<close> and \<^verbatim>\<open>routes.forEach(route => { routeMap[route.routeId] = route; })\<close>.
  \<open>route_properties\<close> are the own properties of the object, and \<open>build_routeMap routes key\<close>
  is \<^verbatim>\<open>routeMap[key]\<close>: the own property, or else the member of \<^verbatim>\<open>Object.prototype\<close>
  of that name, or else \<^verbatim>\<open>undefined\<close> (\<open>None\<close>). An assignment to the key
  \<^verbatim>\<open>__proto__\<close> replaces the prototype of the object instead; what is inherited after it
  is not modelled, and the properties about lookups assume no route of that name.
\<close>

definition proto_names :: "string list" where
  "proto_names =
     [''constructor'', ''__defineGetter__'', ''__defineSetter__'', ''hasOwnProperty'',
      ''__lookupGetter__'', ''__lookupSetter__'', ''isPrototypeOf'',
      ''propertyIsEnumerable'', ''toString'', ''valueOf'', ''__proto__'',
      ''toLocaleString'']"

definition route_properties :: "route list \<Rightarrow> (string \<rightharpoonup> route)" where
  "route_properties routes = fold (\<lambda>r m. m(routeId r \<mapsto> r)) routes Map.empty"

definition build_routeMap :: "route list \<Rightarrow> string \<Rightarrow> doc option" where
  "build_routeMap routes key =
     (case route_properties routes key of
        Some r \<Rightarrow> Some (RouteDoc r)
      | None \<Rightarrow> if key \<in> set proto_names then Some ProtoMember else None)"

text \<open>
  \<^verbatim>\<open>index % availableDrivers\<close>: \<^verbatim>\<open>NaN\<close> (\<open>None\<close>) for a divisor 0, and otherwise the
  remainder of the truncated division, which is exact in doubles.
\<close>

definition js_rem :: "nat \<Rightarrow> rat \<Rightarrow> rat option" where
  "js_rem i a = (if a = 0 then None else Some (of_nat i - \<bar>a\<bar> * of_int \<lfloor>of_nat i / \<bar>a\<bar>\<rfloor>))"

text \<open>
  \<^verbatim>\<open>drivers[index % availableDrivers]\<close>: \<^verbatim>\<open>undefined\<close> unless the index is a whole
  number within the array.
\<close>

definition driver_at :: "driver list \<Rightarrow> nat \<Rightarrow> rat \<Rightarrow> driver option" where
  "driver_at drivers index a =
     (case js_rem index a of
        None \<Rightarrow> None
      | Some x \<Rightarrow>
          if of_int \<lfloor>x\<rfloor> = x \<and> nat \<lfloor>x\<rfloor> < length drivers then Some (drivers ! nat \<lfloor>x\<rfloor>)
          else None)"

text \<open>
  The callback of \<^verbatim>\<open>orders.map\<close>. It throws a \<^verbatim>\<open>TypeError\<close> at
  \<^verbatim>\<open>assignedDriver._id\<close> when the driver is \<^verbatim>\<open>undefined\<close>.
\<close>

definition process_order ::
  "rat \<Rightarrow> driver list \<Rightarrow> (string \<Rightarrow> doc option) \<Rightarrow> totals \<Rightarrow> order \<Rightarrow> nat
     \<Rightarrow> (processed_order \<times> totals) option" where
  "process_order a drivers routeMap acc ord index =
     (case routeMap (assignedRoute ord) of
        None \<Rightarrow> Some (Same ord, acc)
      | Some rt \<Rightarrow>
          (case driver_at drivers index a of
             None \<Rightarrow> None
           | Some assigned \<Rightarrow>
               (let adt = calculateDeliveryTime (DriverDoc assigned) rt (doc_baseTime rt);
                    isLate = js_gt adt (js_add (doc_baseTime rt) (Val 10));
                    pen = (if isLate then 50 else 0);
                    bon = (if \<not> isLate \<and> valueRs ord > 1000 then valueRs ord * (1 / 10)
                           else 0);
                    fuel = calculateFuelCost_of rt;
                    orderProfit = js_sub (Val (valueRs ord + bon - pen)) fuel
                in Some
                    (Fresh (ord\<lparr>assignedDriver := Some (driver_id assigned),
                                actualDeliveryTime := Some adt,
                                isOnTime := \<not> isLate,
                                penalty := pen,
                                bonus := bon\<rparr>) fuel,
                     acc\<lparr>totalProfit := js_add (totalProfit acc) orderProfit,
                         totalFuelCost := js_add (totalFuelCost acc) fuel,
                         totalPenalties := totalPenalties acc + pen,
                         totalBonuses := totalBonuses acc + bon,
                         onTimeDeliveries :=
                           (if isLate then onTimeDeliveries acc
                            else onTimeDeliveries acc + 1),
                         fuelCostByTraffic :=
                           add_to_key (doc_trafficKey rt) fuel (fuelCostByTraffic acc)\<rparr>))))"

text \<open>\<^verbatim>\<open>orders.map\<close> from position \<open>index\<close> on; an exception ends it.\<close>

fun process_orders ::
  "rat \<Rightarrow> driver list \<Rightarrow> (string \<Rightarrow> doc option) \<Rightarrow> nat \<Rightarrow> order list \<Rightarrow> totals
     \<Rightarrow> (processed_order list \<times> totals) option" where
  "process_orders a drivers routeMap index [] acc = Some ([], acc)"
| "process_orders a drivers routeMap index (ord # rest) acc =
     (case process_order a drivers routeMap acc ord index of
        None \<Rightarrow> None
      | Some (p, acc') \<Rightarrow>
          (case process_orders a drivers routeMap (Suc index) rest acc' of
             None \<Rightarrow> None
           | Some (ps, acc'') \<Rightarrow> Some (p # ps, acc'')))"

text \<open>
  A number in a template literal: its decimal digits. \<open>show_number\<close> prints the
  digits after the point until they end, and at most 17 of them; for a number that was
  written in the request with at most 15 digits these are the digits JavaScript prints.
\<close>

definition digit_char :: "nat \<Rightarrow> char" where
  "digit_char d = ''0123456789'' ! d"

function show_nat :: "nat \<Rightarrow> string" where
  "show_nat k = (if k < 10 then [digit_char k] else show_nat (k div 10) @ [digit_char (k mod 10)])"
  by pat_completeness auto
termination
  by (relation "measure id") auto

declare show_nat.simps [simp del]

fun frac_digits :: "nat \<Rightarrow> rat \<Rightarrow> string" where
  "frac_digits 0 f = []"
| "frac_digits (Suc k) f =
     (if f = 0 then []
      else digit_char (nat \<lfloor>10 * f\<rfloor>) # frac_digits k (10 * f - of_int \<lfloor>10 * f\<rfloor>))"

definition show_number :: "rat \<Rightarrow> string" where
  "show_number x =
     (let whole = \<lfloor>\<bar>x\<bar>\<rfloor>; f = \<bar>x\<bar> - of_int whole
      in (if x < 0 then ''-'' else []) @ show_nat (nat whole)
         @ (if f = 0 then [] else ''.'' @ frac_digits 17 f))"

text \<open>
  What the handler leaves behind: the response, the arrays \<^verbatim>\<open>drivers\<close> and \<^verbatim>\<open>orders\<close>
  it fetched as they are when it returns, the array \<^verbatim>\<open>processedOrders\<close>, and the
  database.
\<close>

record handled =
  h_response :: response
  h_drivers :: "driver list"
  h_orders :: "order list"
  h_processed :: "processed_order list"
  h_store :: store

text \<open>
  \<^verbatim>\<open>drivers.forEach(driver => { driver.isFatigued = driver.currentShiftHours > 8; })\<close>:
  an assignment to each fetched driver document.
\<close>

definition check_fatigue :: "driver list \<Rightarrow> driver list" where
  "check_fatigue drivers = map (\<lambda>d. d\<lparr>isFatigued := (currentShiftHours d > 8)\<rparr>) drivers"

text \<open>
  The values \<^verbatim>\<open>efficiencyScore\<close>, \<^verbatim>\<open>results\<close>, \<^verbatim>\<open>deliveryBreakdown\<close> and
  \<^verbatim>\<open>fuelCostBreakdown\<close> that the handler computes once the orders are processed. The
  two counts of the efficiency score are whole numbers, hence doubles; the division and
  the multiplications are rounded, and \<^verbatim>\<open>Math.round\<close> is exact.
\<close>

definition efficiencyScore :: "order list \<Rightarrow> totals \<Rightarrow> rat" where
  "efficiencyScore orders acc =
     (if length orders > 0
      then fl (fl (of_nat (onTimeDeliveries acc) / of_nat (length orders)) * 100)
      else 0)"

definition prepare_results :: "order list \<Rightarrow> totals \<Rightarrow> results" where
  "prepare_results orders acc =
     \<lparr>res_totalProfit = math_round (totalProfit acc),
      res_efficiencyScore =
        fl (of_int (js_round (fl (efficiencyScore orders acc * 100))) / 100),
      res_onTimeDeliveries = onTimeDeliveries acc,
      res_totalDeliveries = length orders,
      res_fuelCost = math_round (totalFuelCost acc),
      res_penalties = totalPenalties acc,
      res_bonuses = js_round (totalBonuses acc)\<rparr>"

definition deliveryBreakdown :: "order list \<Rightarrow> totals \<Rightarrow> (string \<times> int) list" where
  "deliveryBreakdown orders acc =
     [(''On Time'', int (onTimeDeliveries acc)),
      (''Late'', int (length orders) - int (onTimeDeliveries acc))]"

definition fuelCostBreakdown :: "totals \<Rightarrow> (string \<times> jsnum) list" where
  "fuelCostBreakdown acc =
     map (\<lambda>(traffic, cost). (traffic @ '' Traffic'', math_round cost)) (fuelCostByTraffic acc)"

text \<open>
  The body of the handler, given the driver documents \<open>fetched\<close> that
  \<^verbatim>\<open>Driver.find().limit(availableDrivers)\<close> returned. The count \<open>a\<close> is any number
  that passes validation, whole or not. A saved document is the argument of
  \<^verbatim>\<open>new SimulationResult\<close> (the timestamp left out), and its \<^verbatim>\<open>_id\<close> is its position
  in the collection; \<^verbatim>\<open>save()\<close> is taken to succeed, and the casting that Mongoose
  applies to the document is not modelled.
\<close>

definition simulation_handler :: "rat \<Rightarrow> string \<Rightarrow> rat \<Rightarrow> driver list \<Rightarrow> store \<Rightarrow> handled" where
  "simulation_handler a st mh fetched db =
     (let drivers = fetched;
          routes = routeColl db;
          orders = orderColl db
      in if of_nat (length drivers) < a
         then \<lparr>h_response = Status400
                  (''Not enough drivers available. Found '' @ show_nat (length drivers)
                     @ '', requested '' @ show_number a),
               h_drivers = drivers, h_orders = orders, h_processed = [], h_store = db\<rparr>
         else
           (let drivers = check_fatigue drivers;
                routeMap = build_routeMap routes
            in case process_orders a drivers routeMap 0 orders totals0 of
                 None \<Rightarrow>
                   \<lparr>h_response = Status500 ''Simulation failed'',
                    h_drivers = drivers, h_orders = orders, h_processed = [], h_store = db\<rparr>
               | Some (processedOrders, acc) \<Rightarrow>
                   (let res = prepare_results orders acc;
                        simulationResult =
                          \<lparr>in_availableDrivers = a, in_startTime = st,
                           in_maxHoursPerDay = mh, sr_results = res,
                           sr_deliveryBreakdown = deliveryBreakdown orders acc,
                           sr_fuelCostBreakdown = fuelCostBreakdown acc\<rparr>
                    in \<lparr>h_response =
                          Status200 res (deliveryBreakdown orders acc) (fuelCostBreakdown acc)
                            (length (simulationResults db)),
                        h_drivers = drivers, h_orders = orders,
                        h_processed = processedOrders,
                        h_store = db\<lparr>simulationResults :=
                                      simulationResults db @ [simulationResult]\<rparr>\<rparr>)))"

text \<open>The handler for a whole number \<open>n\<close> of available drivers, with its query.\<close>

definition post_simulation :: "nat \<Rightarrow> string \<Rightarrow> rat \<Rightarrow> store \<Rightarrow> handled" where
  "post_simulation n st mh db =
     simulation_handler (of_nat n) st mh (limit_docs n (driverColl db)) db"

text \<open>
  The route \<^verbatim>\<open>app.post('/api/simulation', authenticateToken, validateSimulationInputs, ...)\<close>:
  the middleware ends the request, or calls \<^verbatim>\<open>next()\<close> and the handler runs on the
  fields of the body.
\<close>

definition api_simulation :: "sim_body \<Rightarrow> driver list \<Rightarrow> store \<Rightarrow> handled" where
  "api_simulation body fetched db =
     (case validateSimulationInputs body of
        Ended r \<Rightarrow>
          \<lparr>h_response = r, h_drivers = [], h_orders = [], h_processed = [], h_store = db\<rparr>
      | Next \<Rightarrow>
          simulation_handler (the (availableDrivers body)) (the (startTime body))
            (the (maxHoursPerDay body)) fetched db)"

text \<open>The results of a 200 response.\<close>

fun response_results :: "response \<Rightarrow> results option" where
  "response_results (Status200 res dB fB sid) = Some res"
| "response_results (Status400 e) = None"
| "response_results (Status500 e) = None"

subsection \<open>Sample documents\<close>

text \<open>
  Three drivers of the sample data of \<^verbatim>\<open>/api/init-data\<close>, the route of the
  specification's scenarios, an order on that route, an order whose route is in no
  catalog, and an order whose route is the name of a member of \<^verbatim>\<open>Object.prototype\<close>.
\<close>

definition amit :: driver where
  "amit = \<lparr>driver_id = 3, name = ''Amit Shah'', currentShiftHours = 9,
           past7DayWorkHours = 52, isFatigued = False\<rparr>"

definition raj :: driver where
  "raj = \<lparr>driver_id = 1, name = ''Raj Kumar'', currentShiftHours = 6,
          past7DayWorkHours = 45, isFatigued = False\<rparr>"

definition priya :: driver where
  "priya = \<lparr>driver_id = 2, name = ''Priya Singh'', currentShiftHours = 4,
            past7DayWorkHours = 32, isFatigued = False\<rparr>"

definition scenario_route :: route where
  "scenario_route = \<lparr>routeId = ''RT100'', distance = 10, trafficLevel = High, baseTime = 30\<rparr>"

definition scenario_order :: order where
  "scenario_order =
     \<lparr>orderId = ''ORD001'', valueRs = 1200, assignedRoute = ''RT100'', deliveryTimestamp = 0,
      assignedDriver = None, actualDeliveryTime = None, isOnTime = True, penalty = 0,
      bonus = 0\<rparr>"

definition dangling_order :: order where
  "dangling_order =
     \<lparr>orderId = ''ORD002'', valueRs = 850, assignedRoute = ''RT404'', deliveryTimestamp = 0,
      assignedDriver = None, actualDeliveryTime = None, isOnTime = True, penalty = 0,
      bonus = 0\<rparr>"

definition proto_order :: order where
  "proto_order =
     \<lparr>orderId = ''ORD003'', valueRs = 900, assignedRoute = ''toString'', deliveryTimestamp = 0,
      assignedDriver = None, actualDeliveryTime = None, isOnTime = True, penalty = 0,
      bonus = 0\<rparr>"

definition sample_db :: "order list \<Rightarrow> store" where
  "sample_db os = \<lparr>driverColl = [amit, raj], routeColl = [scenario_route], orderColl = os,
                   simulationResults = []\<rparr>"

text \<open>Whether the handler's test \<^verbatim>\<open>if (!route)\<close> lets an order through.\<close>

definition resolves :: "(string \<Rightarrow> doc option) \<Rightarrow> order \<Rightarrow> bool" where
  "resolves routeMap ord = (routeMap (assignedRoute ord) \<noteq> None)"

text \<open>
  The outcome of an order in a run where nothing is late: an order without a route is
  returned as it is; any other gets a new object that is on time, has no penalty, and
  has the rounded base time of what was looked up as its delivery time, which does not
  exceed the base time plus the ten minutes of grace.
\<close>

definition on_time_outcome :: "(string \<Rightarrow> doc option) \<Rightarrow> order \<Rightarrow> processed_order \<Rightarrow> bool" where
  "on_time_outcome routeMap ord p =
     (case routeMap (assignedRoute ord) of
        None \<Rightarrow> p = Same ord
      | Some rt \<Rightarrow>
          (case p of
             Same ord' \<Rightarrow> False
           | Fresh ord' fuel \<Rightarrow>
               isOnTime ord' \<and> penalty ord' = 0
               \<and> actualDeliveryTime ord' = Some (math_round (doc_baseTime rt))
               \<and> \<not> js_gt (math_round (doc_baseTime rt)) (js_add (doc_baseTime rt) (Val 10))))"

text \<open>
  What the callback may return for an order: the order itself, or an object that
  differs from it in the computed fields only.
\<close>

definition copy_of :: "order \<Rightarrow> processed_order \<Rightarrow> bool" where
  "copy_of ord p =
     (case p of
        Same ord' \<Rightarrow> ord' = ord
      | Fresh ord' fuel \<Rightarrow>
          ord'\<lparr>assignedDriver := assignedDriver ord,
               actualDeliveryTime := actualDeliveryTime ord,
               isOnTime := isOnTime ord, penalty := penalty ord, bonus := bonus ord\<rparr> = ord)"

section \<open>Properties\<close>

subsection \<open>The start time format\<close>

lemma cls_simp: "rx_match (Cls a b) (c # cs) = (if in_range a b c then [cs] else [])"
  "rx_match (Cls a b) [] = []"
  by (simp_all add: in_range_def)

lemma chr_simp: "rx_match (Chr a) (c # cs) = (if c = a then [cs] else [])"
  "rx_match (Chr a) [] = []"
  by simp_all

lemmas time_unfold = timeRegex_test_def rx_test_anchored_def timeRegex_def

lemma timeRegex_test_short:
  "\<not> timeRegex_test []" "\<not> timeRegex_test [a]" "\<not> timeRegex_test [a, b]"
  "\<not> timeRegex_test [a, b, c]"
  by (simp_all add: time_unfold)

lemma timeRegex_test_4: "timeRegex_test [a, b, c, d] = one_digit_hour [a, b, c, d]"
  unfolding time_unfold
  by (auto simp add: cls_simp chr_simp hour_ok_def minute_ok_def simp del: rx_match.simps(1,2))

lemma timeRegex_test_5: "timeRegex_test [a, b, c, d, e] = spec_HHMM [a, b, c, d, e]"
  unfolding time_unfold
  by (auto simp add: cls_simp chr_simp hour_ok_def minute_ok_def simp del: rx_match.simps(1,2))

lemma timeRegex_test_long: "\<not> timeRegex_test (a # b # c # d # e # f # s)"
  unfolding time_unfold
  by (auto simp add: cls_simp chr_simp simp del: rx_match.simps(1,2))

lemma timeRegex_test_iff: "timeRegex_test s = (spec_HHMM s \<or> one_digit_hour s)"
proof -
  consider "s = []" | a where "s = [a]" | a b where "s = [a, b]" | a b c where "s = [a, b, c]"
    | a b c d where "s = [a, b, c, d]" | a b c d e where "s = [a, b, c, d, e]"
    | a b c d e f t where "s = a # b # c # d # e # f # t"
    by (metis list.exhaust)
  then show ?thesis
    by cases (simp_all add: timeRegex_test_short timeRegex_test_4 timeRegex_test_5
        timeRegex_test_long del: one_digit_hour.simps(1) spec_HHMM.simps(1))
qed

subsection \<open>Validation\<close>

lemmas msg_unfold = validateSimulationInputs_def not_num_def not_str_def num_lt_def num_gt_def
  str_test_def

text \<open>
  Claim C4, as the middleware implements it. The missing-field check comes first and
  treats 0 as missing, so the answer ``Available drivers must be between 1 and 50'' is
  given exactly when \<open>availableDrivers\<close> is a number other than 0 outside the range from
  1 to 50 and the two other fields are present and truthy (a non-empty start time, a
  \<open>maxHoursPerDay\<close> other than 0), whatever else their values are.
\<close>

theorem driver_count_error_iff:
  "validateSimulationInputs body = Ended (Status400 ''Available drivers must be between 1 and 50'')
   \<longleftrightarrow> (\<exists>a. availableDrivers body = Some a \<and> a \<noteq> 0 \<and> (a < 1 \<or> 50 < a))
        \<and> \<not> not_str (startTime body) \<and> \<not> not_num (maxHoursPerDay body)"
  by (auto simp add: msg_unfold split: option.splits)

theorem driver_count_error_iff_witness:
  "validateSimulationInputs
     \<lparr>availableDrivers = Some (- 1), startTime = Some ''09:00'', maxHoursPerDay = Some 8\<rparr>
   = Ended (Status400 ''Available drivers must be between 1 and 50'')"
  using driver_count_error_iff
    [of "\<lparr>availableDrivers = Some (- 1), startTime = Some ''09:00'', maxHoursPerDay = Some 8\<rparr>"]
  by (simp add: not_str_def not_num_def)

text \<open>
  Claim C4 as stated fails at \<open>availableDrivers = 0\<close>: the value lies outside the range,
  yet the answer is the missing-parameters error.
\<close>

theorem zero_drivers_counterexample:
  "(0::rat) < 1
   \<and> validateSimulationInputs
       \<lparr>availableDrivers = Some 0, startTime = Some ''09:00'', maxHoursPerDay = Some 8\<rparr>
     = Ended (Status400
         ''Missing required parameters: availableDrivers, startTime, maxHoursPerDay'')
   \<and> validateSimulationInputs
       \<lparr>availableDrivers = Some 0, startTime = Some ''09:00'', maxHoursPerDay = Some 8\<rparr>
     \<noteq> Ended (Status400 ''Available drivers must be between 1 and 50'')"
  by (simp add: msg_unfold)

text \<open>
  Claim C5, as the middleware implements it. When the earlier checks pass, the answer
  ``Start time must be in HH:MM format'' is given exactly when the start time is neither
  a two-digit-hour time \<open>HH:MM\<close> nor a one-digit-hour time \<open>H:MM\<close>: the regular
  expression makes the first digit of the hour optional. No string in the two-digit
  format is rejected.
\<close>

theorem time_format_error_iff:
  "validateSimulationInputs body = Ended (Status400 ''Start time must be in HH:MM format'')
   \<longleftrightarrow> (\<exists>a t h. availableDrivers body = Some a \<and> startTime body = Some t
          \<and> maxHoursPerDay body = Some h \<and> 1 \<le> a \<and> a \<le> 50 \<and> 1 \<le> h \<and> h \<le> 24
          \<and> t \<noteq> [] \<and> \<not> spec_HHMM t \<and> \<not> one_digit_hour t)"
  by (auto simp add: msg_unfold timeRegex_test_iff split: option.splits)

theorem time_format_error_iff_witness:
  "validateSimulationInputs
     \<lparr>availableDrivers = Some 3, startTime = Some ''25:00'', maxHoursPerDay = Some 8\<rparr>
   = Ended (Status400 ''Start time must be in HH:MM format'')"
  using time_format_error_iff
    [of "\<lparr>availableDrivers = Some 3, startTime = Some ''25:00'', maxHoursPerDay = Some 8\<rparr>"]
  by (simp add: hour_ok_def in_range_def)

text \<open>
  Claim C5 as stated fails at \<open>''9:30''\<close>: the string is not in the two-digit format, and
  validation passes.
\<close>

theorem single_digit_hour_counterexample:
  "\<not> spec_HHMM ''9:30''
   \<and> validateSimulationInputs
       \<lparr>availableDrivers = Some 3, startTime = Some ''9:30'', maxHoursPerDay = Some 8\<rparr> = Next"
  by (simp add: msg_unfold timeRegex_test_iff minute_ok_def in_range_def)

subsection \<open>Rounding to a double\<close>

lemma rne_error: "\<bar>of_int (rne y) - y\<bar> \<le> 1 / 2"
proof -
  have "of_int \<lfloor>y\<rfloor> \<le> y" "y < of_int \<lfloor>y\<rfloor> + 1" by linarith+
  then show ?thesis
    by (auto simp add: rne_def Let_def)
qed

lemma rne_nonneg: "0 \<le> y \<Longrightarrow> 0 \<le> rne y"
  by (auto simp add: rne_def Let_def)

lemma inv_flip_le: "0 < (y::rat) \<Longrightarrow> 0 < p \<Longrightarrow> 1 / y \<le> p \<Longrightarrow> 1 / p \<le> y"
  by (simp add: field_simps)

lemma inv_flip_less: "0 < (y::rat) \<Longrightarrow> 0 < p \<Longrightarrow> p < 1 / y \<Longrightarrow> y < 1 / p"
  by (simp add: field_simps)

lemma powi_neg: "0 \<le> c \<Longrightarrow> (2::rat) powi (- c) = 1 / 2 ^ nat c"
  by (auto simp add: power_int_def power_one_over)

lemma ilog2_bounds:
  assumes "0 < y"
  shows "2 powi ilog2 y \<le> y \<and> y < 2 powi (ilog2 y + 1)"
proof (cases "1 \<le> y")
  case True
  let ?n = "\<lfloor>y\<rfloor>"
  let ?b = "bitlen ?n"
  from True have n: "0 < ?n" by simp
  from bitlen_bounds [OF n] have lo: "2 ^ nat (?b - 1) \<le> ?n" and hi: "?n < 2 ^ nat ?b"
    by simp_all
  from n have b: "1 \<le> ?b" using bitlen_eq_zero_iff [of ?n] bitlen_nonneg [of ?n] by linarith
  have "(of_int (2 ^ nat (?b - 1)) :: rat) \<le> of_int ?n" using lo by (simp only: of_int_le_iff)
  also have "\<dots> \<le> y" by simp
  finally have 1: "(2::rat) ^ nat (?b - 1) \<le> y" by simp
  from hi have "?n + 1 \<le> 2 ^ nat ?b" by simp
  then have "(of_int (?n + 1) :: rat) \<le> of_int (2 ^ nat ?b)" by (simp only: of_int_le_iff)
  moreover have "y < of_int (?n + 1)" by simp linarith
  ultimately have 2: "y < (2::rat) ^ nat ?b" by simp
  from True b 1 2 show ?thesis
    by (simp add: ilog2_def power_int_def)
next
  case False
  let ?z = "1 / y"
  let ?m = "\<lceil>?z\<rceil> - 1"
  let ?b = "bitlen ?m"
  from False assms have z: "1 < ?z" by simp
  then have m: "0 < ?m" by simp
  from bitlen_bounds [OF m] have lo: "2 ^ nat (?b - 1) \<le> ?m" and hi: "?m < 2 ^ nat ?b"
    by simp_all
  from m have b: "1 \<le> ?b" using bitlen_eq_zero_iff [of ?m] bitlen_nonneg [of ?m] by linarith
  from hi have "\<lceil>?z\<rceil> \<le> 2 ^ nat ?b" by linarith
  then have "(of_int \<lceil>?z\<rceil> :: rat) \<le> of_int (2 ^ nat ?b)" by (simp only: of_int_le_iff)
  from order_trans [OF le_of_int_ceiling this] have zhi: "?z \<le> 2 ^ nat ?b" by simp
  have "(of_int (2 ^ nat (?b - 1)) :: rat) \<le> of_int ?m" using lo by (simp only: of_int_le_iff)
  moreover have "of_int ?m < ?z" using of_int_ceiling_diff_one_le [of ?z] ceiling_correct [of ?z]
    by simp
  ultimately have "(of_int (2 ^ nat (?b - 1)) :: rat) < ?z" by (rule le_less_trans)
  then have zlo: "2 ^ nat (?b - 1) < ?z" by simp
  have 1: "1 / 2 ^ nat ?b \<le> y"
    by (rule inv_flip_le [OF assms _ zhi]) simp
  have 2: "y < 1 / 2 ^ nat (?b - 1)"
    by (rule inv_flip_less [OF assms _ zlo]) simp
  have e: "ilog2 y = - ?b" using False by (simp add: ilog2_def)
  from b have p1: "(2::rat) powi (- ?b) = 1 / 2 ^ nat ?b"
    by (intro powi_neg) linarith
  have "- ?b + 1 = - (?b - 1)" by linarith
  moreover from b have "(2::rat) powi (- (?b - 1)) = 1 / 2 ^ nat (?b - 1)"
    by (intro powi_neg) linarith
  ultimately have p2: "(2::rat) powi (- ?b + 1) = 1 / 2 ^ nat (?b - 1)"
    by (simp only:)
  from 1 2 show ?thesis by (simp only: e p1 p2)
qed

lemma fl_error: "\<bar>fl x - x\<bar> \<le> \<bar>x\<bar> / 2 ^ 53"
proof (cases "x = 0")
  case True
  then show ?thesis by (simp add: fl_def)
next
  case False
  let ?e = "ilog2 \<bar>x\<bar>"
  let ?u = "(2::rat) powi (?e - 52)"
  have u: "0 < ?u" by simp
  from False ilog2_bounds [of "\<bar>x\<bar>"] have lo: "2 powi ?e \<le> \<bar>x\<bar>" by simp
  have scale: "?u * 2 ^ 52 = 2 powi ?e"
    by (simp add: power_int_diff)
  have "fl x - x = (of_int (rne (x / ?u)) - x / ?u) * ?u"
    using False u by (simp add: fl_def Let_def field_simps)
  then have "\<bar>fl x - x\<bar> = \<bar>of_int (rne (x / ?u)) - x / ?u\<bar> * ?u"
    using u by (simp add: abs_mult)
  also have "\<dots> \<le> (1 / 2) * ?u"
    using rne_error [of "x / ?u"] u by (intro mult_right_mono) simp_all
  also have "\<dots> = 2 powi ?e / 2 ^ 53"
    using scale by (simp add: field_simps)
  also have "\<dots> \<le> \<bar>x\<bar> / 2 ^ 53"
    using lo by (simp add: divide_right_mono)
  finally show ?thesis .
qed

lemma fl_nonneg: "0 \<le> x \<Longrightarrow> 0 \<le> fl x"
  by (simp add: fl_def Let_def rne_nonneg)

subsection \<open>Order processing\<close>

lemma js_round_le: "(of_int (js_round x) :: rat) \<le> x + 1 / 2"
  by (simp add: js_round_def)

lemma math_round_not_late: "\<not> js_gt (math_round b) (js_add b (Val 10))"
proof (cases b)
  case (Val x)
  with js_round_le [of x] show ?thesis by simp
next
  case NaN
  then show ?thesis by simp
qed

lemma calculateDeliveryTime_looked_up:
  "calculateDeliveryTime x rt (doc_baseTime rt) = math_round (doc_baseTime rt)"
  by (cases rt) (simp_all add: calculateDeliveryTime_def)

lemma process_order_unresolved:
  "routeMap (assignedRoute ord) = None \<Longrightarrow>
   process_order a drivers routeMap acc ord index = Some (Same ord, acc)"
  by (simp add: process_order_def)

lemma process_order_resolved:
  "routeMap (assignedRoute ord) = Some rt \<Longrightarrow>
   process_order a drivers routeMap acc ord index =
     (case driver_at drivers index a of
        None \<Rightarrow> None
      | Some assigned \<Rightarrow>
          Some (Fresh (ord\<lparr>assignedDriver := Some (driver_id assigned),
                           actualDeliveryTime := Some (math_round (doc_baseTime rt)),
                           isOnTime := True, penalty := 0,
                           bonus := (if valueRs ord > 1000 then valueRs ord * (1 / 10) else 0)\<rparr>)
                  (calculateFuelCost_of rt),
                acc\<lparr>totalProfit := js_add (totalProfit acc)
                       (js_sub
                          (Val (valueRs ord
                             + (if valueRs ord > 1000 then valueRs ord * (1 / 10) else 0) - 0))
                          (calculateFuelCost_of rt)),
                    totalFuelCost := js_add (totalFuelCost acc) (calculateFuelCost_of rt),
                    totalPenalties := totalPenalties acc + 0,
                    totalBonuses := totalBonuses acc
                       + (if valueRs ord > 1000 then valueRs ord * (1 / 10) else 0),
                    onTimeDeliveries := onTimeDeliveries acc + 1,
                    fuelCostByTraffic :=
                      add_to_key (doc_trafficKey rt) (calculateFuelCost_of rt)
                        (fuelCostByTraffic acc)\<rparr>))"
  using math_round_not_late [of "doc_baseTime rt"]
  by (simp add: process_order_def calculateDeliveryTime_looked_up Let_def split: option.splits)

lemma process_order_acc_indep:
  assumes "process_order a drivers routeMap acc ord i = Some (p, acc1)"
    and "process_order a' drivers' routeMap acc ord j = Some (q, acc2)"
  shows "acc1 = acc2"
proof (cases "routeMap (assignedRoute ord)")
  case None
  with assms show ?thesis by (simp add: process_order_unresolved)
next
  case (Some rt)
  with assms show ?thesis
    by (auto simp add: process_order_resolved [where routeMap = routeMap, OF Some]
        split: option.splits)
qed

lemma process_orders_append:
  "process_orders a drivers routeMap i (xs @ ys) acc =
     (case process_orders a drivers routeMap i xs acc of
        None \<Rightarrow> None
      | Some (ps, acc') \<Rightarrow>
          (case process_orders a drivers routeMap (i + length xs) ys acc' of
             None \<Rightarrow> None
           | Some (qs, acc'') \<Rightarrow> Some (ps @ qs, acc'')))"
  by (induction xs arbitrary: i acc) (auto split: option.splits)

lemma process_orders_length:
  "process_orders a drivers routeMap i os acc = Some (ps, acc') \<Longrightarrow> length ps = length os"
  by (induction os arbitrary: i acc ps) (auto split: option.splits)

lemma process_orders_acc_indep:
  "process_orders a drivers routeMap i os acc = Some (ps, acc1) \<Longrightarrow>
   process_orders a' drivers' routeMap j os acc = Some (qs, acc2) \<Longrightarrow> acc1 = acc2"
proof (induction os arbitrary: i j acc ps qs)
  case Nil
  then show ?case by simp
next
  case (Cons ord rest)
  from Cons.prems(1) obtain p b1 ps' where
    s1: "process_order a drivers routeMap acc ord i = Some (p, b1)" and
    r1: "process_orders a drivers routeMap (Suc i) rest b1 = Some (ps', acc1)"
    by (auto split: option.splits)
  from Cons.prems(2) obtain q b2 qs' where
    s2: "process_order a' drivers' routeMap acc ord j = Some (q, b2)" and
    r2: "process_orders a' drivers' routeMap (Suc j) rest b2 = Some (qs', acc2)"
    by (auto split: option.splits)
  from process_order_acc_indep [OF s1 s2] have "b1 = b2" .
  with r1 r2 Cons.IH show ?case by blast
qed

lemma js_rem_whole: "0 < n \<Longrightarrow> js_rem i (of_nat n) = Some (of_nat (i mod n))"
proof -
  assume n: "0 < n"
  have "(of_nat i :: rat) = of_nat (n * (i div n) + i mod n)" by simp
  then have "(of_nat i :: rat) - of_nat n * of_nat (i div n) = of_nat (i mod n)"
    by (simp only: of_nat_add of_nat_mult)
  with n show ?thesis
    by (simp add: js_rem_def floor_divide_of_nat_eq)
qed

lemma driver_at_whole:
  assumes "0 < n" and "n \<le> length drivers"
  shows "driver_at drivers i (of_nat n) = Some (drivers ! (i mod n))"
proof -
  from assms(1) have "i mod n < n" by simp
  with assms(2) have "i mod n < length drivers" by linarith
  with assms(1) show ?thesis
    by (simp add: driver_at_def js_rem_whole)
qed

lemma process_orders_succeeds:
  assumes "0 < n" "n \<le> length drivers"
  shows "\<exists>ps acc'. process_orders (of_nat n) drivers routeMap i os acc = Some (ps, acc')"
proof (induction os arbitrary: i acc)
  case Nil
  show ?case by simp
next
  case (Cons ord rest)
  have "\<exists>p acc1. process_order (of_nat n) drivers routeMap acc ord i = Some (p, acc1)"
  proof (cases "routeMap (assignedRoute ord)")
    case None
    then show ?thesis by (simp add: process_order_unresolved)
  next
    case (Some rt)
    show ?thesis
      by (simp add: process_order_resolved [where routeMap = routeMap, OF Some]
          driver_at_whole [OF assms])
  qed
  then obtain p acc1 where
    "process_order (of_nat n) drivers routeMap acc ord i = Some (p, acc1)"
    by blast
  moreover from Cons.IH [of "Suc i" acc1]
  obtain ps acc2 where
    "process_orders (of_nat n) drivers routeMap (Suc i) rest acc1 = Some (ps, acc2)"
    by blast
  ultimately show ?case by simp
qed

lemma process_order_on_time:
  assumes "process_order a drivers routeMap acc ord i = Some (p, acc')"
  shows "totalPenalties acc' = totalPenalties acc
       \<and> onTimeDeliveries acc' = onTimeDeliveries acc + (if resolves routeMap ord then 1 else 0)
       \<and> on_time_outcome routeMap ord p"
proof (cases "routeMap (assignedRoute ord)")
  case None
  with assms show ?thesis
    by (auto simp add: process_order_unresolved resolves_def on_time_outcome_def)
next
  case (Some rt)
  with assms math_round_not_late [of "doc_baseTime rt"] show ?thesis
    by (auto simp add: process_order_resolved [where routeMap = routeMap, OF Some]
        resolves_def on_time_outcome_def split: option.splits)
qed

lemma process_orders_on_time:
  "process_orders a drivers routeMap i os acc = Some (ps, acc') \<Longrightarrow>
   totalPenalties acc' = totalPenalties acc
   \<and> onTimeDeliveries acc' = onTimeDeliveries acc + length (filter (resolves routeMap) os)
   \<and> list_all2 (on_time_outcome routeMap) os ps"
proof (induction os arbitrary: i acc ps)
  case Nil
  then show ?case by simp
next
  case (Cons ord rest)
  from Cons.prems obtain p acc1 qs where
    step: "process_order a drivers routeMap acc ord i = Some (p, acc1)" and
    rest: "process_orders a drivers routeMap (Suc i) rest acc1 = Some (qs, acc')" and
    ps: "ps = p # qs"
    by (auto split: option.splits)
  from process_order_on_time [OF step] Cons.IH [OF rest] ps show ?case
    by simp
qed

lemma process_order_copy:
  "process_order a drivers routeMap acc ord i = Some (p, acc') \<Longrightarrow> copy_of ord p"
  by (auto simp add: process_order_def copy_of_def Let_def split: option.splits)

lemma process_orders_copy:
  "process_orders a drivers routeMap i os acc = Some (ps, acc') \<Longrightarrow> list_all2 copy_of os ps"
proof (induction os arbitrary: i acc ps)
  case Nil
  then show ?case by simp
next
  case (Cons ord rest)
  from Cons.prems obtain p acc1 qs where
    step: "process_order a drivers routeMap acc ord i = Some (p, acc1)" and
    rest: "process_orders a drivers routeMap (Suc i) rest acc1 = Some (qs, acc')" and
    ps: "ps = p # qs"
    by (auto split: option.splits)
  from process_order_copy [OF step] Cons.IH [OF rest] ps show ?case
    by simp
qed

subsection \<open>The handler\<close>

lemma limit_docs_short: "(length (limit_docs n xs) < n) = (length xs < n)"
  by (auto simp add: limit_docs_def)

lemma limit_docs_all: "length xs < n \<Longrightarrow> limit_docs n xs = xs"
  by (simp add: limit_docs_def)

lemma check_fatigue_length: "length (check_fatigue ds) = length ds"
  by (simp add: check_fatigue_def)

lemma run_drivers_enough:
  "\<not> length xs < n \<Longrightarrow> n \<le> length (check_fatigue (limit_docs n xs))"
  by (simp add: check_fatigue_length limit_docs_def)

lemma show_number_whole: "show_number (of_nat n) = show_nat n"
  by (simp add: show_number_def)

lemma handler_insufficient:
  "of_nat (length fetched) < a \<Longrightarrow>
   simulation_handler a st mh fetched db =
     \<lparr>h_response = Status400
        (''Not enough drivers available. Found '' @ show_nat (length fetched)
           @ '', requested '' @ show_number a),
      h_drivers = fetched, h_orders = orderColl db, h_processed = [], h_store = db\<rparr>"
  by (simp add: simulation_handler_def Let_def)

lemma handler_thrown:
  "\<not> of_nat (length fetched) < a \<Longrightarrow>
   process_orders a (check_fatigue fetched) (build_routeMap (routeColl db)) 0 (orderColl db)
     totals0 = None \<Longrightarrow>
   simulation_handler a st mh fetched db =
     \<lparr>h_response = Status500 ''Simulation failed'', h_drivers = check_fatigue fetched,
      h_orders = orderColl db, h_processed = [], h_store = db\<rparr>"
  by (simp add: simulation_handler_def Let_def)

lemma handler_done:
  "\<not> of_nat (length fetched) < a \<Longrightarrow>
   process_orders a (check_fatigue fetched) (build_routeMap (routeColl db)) 0 (orderColl db)
     totals0 = Some (ps, acc) \<Longrightarrow>
   simulation_handler a st mh fetched db =
     \<lparr>h_response =
        Status200 (prepare_results (orderColl db) acc) (deliveryBreakdown (orderColl db) acc)
          (fuelCostBreakdown acc) (length (simulationResults db)),
      h_drivers = check_fatigue fetched, h_orders = orderColl db, h_processed = ps,
      h_store = db\<lparr>simulationResults := simulationResults db @
        [\<lparr>in_availableDrivers = a, in_startTime = st, in_maxHoursPerDay = mh,
          sr_results = prepare_results (orderColl db) acc,
          sr_deliveryBreakdown = deliveryBreakdown (orderColl db) acc,
          sr_fuelCostBreakdown = fuelCostBreakdown acc\<rparr>]\<rparr>\<rparr>"
  by (simp add: simulation_handler_def Let_def)

lemma handler_200D:
  assumes "h_response (simulation_handler a st mh fetched db) = Status200 res dB fB sid"
  shows "\<not> of_nat (length fetched) < a \<and>
    (\<exists>ps acc. process_orders a (check_fatigue fetched) (build_routeMap (routeColl db)) 0
          (orderColl db) totals0 = Some (ps, acc)
      \<and> res = prepare_results (orderColl db) acc
      \<and> dB = deliveryBreakdown (orderColl db) acc
      \<and> fB = fuelCostBreakdown acc
      \<and> sid = length (simulationResults db)
      \<and> h_processed (simulation_handler a st mh fetched db) = ps)"
proof (cases "of_nat (length fetched) < a")
  case True
  with assms show ?thesis by (simp add: handler_insufficient)
next
  case False
  show ?thesis
  proof (cases "process_orders a (check_fatigue fetched) (build_routeMap (routeColl db)) 0
        (orderColl db) totals0")
    case None
    with assms False show ?thesis by (simp add: handler_thrown)
  next
    case (Some r)
    obtain ps acc where "r = (ps, acc)" by (cases r)
    with assms False Some show ?thesis
      by (simp add: handler_done [where ps = ps and acc = acc])
  qed
qed

lemma post_simulation_insufficient:
  "length (driverColl db) < n \<Longrightarrow>
   post_simulation n st mh db =
     \<lparr>h_response = Status400
        (''Not enough drivers available. Found '' @ show_nat (length (driverColl db))
           @ '', requested '' @ show_nat n),
      h_drivers = driverColl db, h_orders = orderColl db, h_processed = [], h_store = db\<rparr>"
  by (simp add: post_simulation_def handler_insufficient limit_docs_all show_number_whole)

lemma post_simulation_enough:
  "\<not> length (driverColl db) < n \<Longrightarrow>
   \<not> (of_nat (length (limit_docs n (driverColl db))) :: rat) < of_nat n"
  by (simp add: limit_docs_def)

subsection \<open>Runs on the sample documents\<close>

lemmas sample_defs = sample_db_def amit_def raj_def priya_def scenario_route_def
  scenario_order_def dangling_order_def

lemmas run_defs = post_simulation_def simulation_handler_def limit_docs_def check_fatigue_def
  build_routeMap_def route_properties_def proto_names_def process_order_def driver_at_def
  js_rem_def totals0_def calculateDeliveryTime_def calculateFuelCost_def js_round_def
  floor_eq_iff prepare_results_def deliveryBreakdown_def fuelCostBreakdown_def
  traffic_name_def Let_def

text \<open>
  Claim C1 (fatigue slows the delivery by 30 percent) does not hold of the handler. The
  call site is \<^verbatim>\<open>calculateDeliveryTime(assignedDriver, route, route.baseTime)\<close>, so the
  parameter named \<^verbatim>\<open>driver\<close> is bound to the route, which has no \<^verbatim>\<open>isFatigued\<close>.
  In the run below the only driver has worked 9 hours and is flagged as fatigued, the
  route has a base time of 30, and the delivery time is 30; the claim's value is
  \<open>round (30 \<times> 1.3) = 39\<close>.
\<close>

theorem fatigued_driver_not_slowed:
  "h_drivers (post_simulation 1 ''09:00'' 8 (sample_db [scenario_order]))
     = [amit\<lparr>isFatigued := True\<rparr>]
   \<and> h_processed (post_simulation 1 ''09:00'' 8 (sample_db [scenario_order]))
     = [Fresh (scenario_order\<lparr>assignedDriver := Some 3, actualDeliveryTime := Some (Val 30),
                              bonus := 120\<rparr>) (Val 70)]
   \<and> js_round (baseTime scenario_route * (13 / 10)) = 39"
  by (simp add: sample_defs run_defs)

text \<open>
  Claim C9: the fuel cost of a route is 5 per unit of distance, plus 2 per unit of
  distance exactly when the traffic level is High; for a fixed traffic level it does not
  decrease when the distance grows; and the cost under High traffic is the cost under
  Low traffic plus twice the distance.
\<close>

theorem fuel_cost:
  "calculateFuelCost r = 5 * distance r + (if trafficLevel r = High then 2 * distance r else 0)
   \<and> (trafficLevel r = trafficLevel r' \<and> distance r \<le> distance r'
        \<longrightarrow> calculateFuelCost r \<le> calculateFuelCost r')
   \<and> calculateFuelCost (r\<lparr>trafficLevel := High\<rparr>)
        = calculateFuelCost (r\<lparr>trafficLevel := Low\<rparr>) + 2 * distance r"
  by (auto simp add: calculateFuelCost_def Let_def)

theorem fuel_cost_witness:
  "calculateFuelCost scenario_route = 70
   \<and> calculateFuelCost scenario_route
      \<le> calculateFuelCost (scenario_route\<lparr>distance := 25\<rparr>)
   \<and> calculateFuelCost (scenario_route\<lparr>trafficLevel := High\<rparr>)
      = calculateFuelCost (scenario_route\<lparr>trafficLevel := Low\<rparr>) + 20"
  using fuel_cost [of scenario_route "scenario_route\<lparr>distance := 25\<rparr>"]
  by (simp add: scenario_route_def)

text \<open>
  Claim C7: when the driver collection holds fewer drivers than requested, the handler
  answers 400 with the number found and the number requested, processes no order,
  assigns no fatigue flag and leaves the database as it was: no simulation result is
  saved.
\<close>

theorem insufficient_drivers:
  assumes "length (driverColl db) < n"
  shows "post_simulation n st mh db =
     \<lparr>h_response = Status400
        (''Not enough drivers available. Found '' @ show_nat (length (driverColl db))
           @ '', requested '' @ show_nat n),
      h_drivers = driverColl db, h_orders = orderColl db, h_processed = [], h_store = db\<rparr>"
  using assms by (rule post_simulation_insufficient)

theorem insufficient_drivers_witness:
  "post_simulation 3 ''09:00'' 8 (sample_db [scenario_order]) =
     \<lparr>h_response = Status400 ''Not enough drivers available. Found 2, requested 3'',
      h_drivers = [amit, raj], h_orders = [scenario_order], h_processed = [],
      h_store = sample_db [scenario_order]\<rparr>"
  using insufficient_drivers [of "sample_db [scenario_order]" 3 "''09:00''" 8]
  by (simp add: sample_db_def show_nat.simps digit_char_def)

text \<open>
  Claim C3, as the handler implements it. A run changes neither the fetched order
  documents nor the driver, route and order collections, and each processed order is
  the order itself or a new object that differs from it in the computed fields only.
  The fetched driver documents are changed in place once the driver count is
  sufficient: each gets its \<^verbatim>\<open>isFatigued\<close> assigned from
  \<^verbatim>\<open>currentShiftHours > 8\<close>, and nothing else of it changes.
\<close>

theorem run_frame:
  "h_orders (post_simulation n st mh db) = orderColl db
   \<and> orderColl (h_store (post_simulation n st mh db)) = orderColl db
   \<and> driverColl (h_store (post_simulation n st mh db)) = driverColl db
   \<and> routeColl (h_store (post_simulation n st mh db)) = routeColl db
   \<and> (h_processed (post_simulation n st mh db) = []
       \<or> list_all2 copy_of (orderColl db) (h_processed (post_simulation n st mh db)))
   \<and> h_drivers (post_simulation n st mh db)
     = (if length (driverColl db) < n then driverColl db
        else map (\<lambda>d. d\<lparr>isFatigued := (8 < currentShiftHours d)\<rparr>)
               (limit_docs n (driverColl db)))"
proof (cases "length (driverColl db) < n")
  case True
  then show ?thesis by (simp add: post_simulation_insufficient)
next
  case False
  note enough = post_simulation_enough [OF False]
  show ?thesis
  proof (cases "process_orders (of_nat n) (check_fatigue (limit_docs n (driverColl db)))
        (build_routeMap (routeColl db)) 0 (orderColl db) totals0")
    case None
    with False show ?thesis
      by (simp add: post_simulation_def handler_thrown [OF enough] check_fatigue_def)
  next
    case (Some r)
    obtain ps acc where r: "r = (ps, acc)" by (cases r)
    with Some have "list_all2 copy_of (orderColl db) ps"
      by (simp add: process_orders_copy)
    with False Some r show ?thesis
      by (simp add: post_simulation_def handler_done [OF enough, where ps = ps and acc = acc]
          check_fatigue_def)
  qed
qed

theorem run_frame_witness:
  "h_orders (post_simulation 1 ''09:00'' 8 (sample_db [scenario_order])) = [scenario_order]
   \<and> h_drivers (post_simulation 1 ''09:00'' 8 (sample_db [scenario_order]))
      = [amit\<lparr>isFatigued := True\<rparr>]
   \<and> h_drivers (post_simulation 3 ''09:00'' 8 (sample_db [scenario_order])) = [amit, raj]"
  using run_frame [of 1 "''09:00''" 8 "sample_db [scenario_order]"]
    run_frame [of 3 "''09:00''" 8 "sample_db [scenario_order]"]
  by (simp add: sample_db_def amit_def limit_docs_def)

text \<open>
  Claim C3 as stated fails: after a run the fetched driver documents differ from what
  the query returned, the fatigue flag of a driver with a shift of 9 hours having been
  set.
\<close>

theorem driver_flag_overwritten:
  "h_drivers (post_simulation 1 ''09:00'' 8 (sample_db [scenario_order]))
     \<noteq> limit_docs 1 (driverColl (sample_db [scenario_order]))"
  by (simp add: sample_defs run_defs)

lemma sample_lookups:
  "build_routeMap [scenario_route] ''RT100'' = Some (RouteDoc scenario_route)"
  "build_routeMap [scenario_route] ''RT404'' = None"
  "build_routeMap [scenario_route] ''toString'' = Some ProtoMember"
  by (simp_all add: build_routeMap_def route_properties_def proto_names_def scenario_route_def)

lemma sample_no_proto: "''__proto__'' \<notin> routeId ` set (routeColl (sample_db os))"
  by (simp add: sample_db_def scenario_route_def)

subsection \<open>Lateness\<close>

lemma api_simulation_200D:
  assumes "h_response (api_simulation body fetched db) = Status200 res dB fB sid"
  shows "validateSimulationInputs body = Next
    \<and> api_simulation body fetched db
        = simulation_handler (the (availableDrivers body)) (the (startTime body))
            (the (maxHoursPerDay body)) fetched db"
proof (cases "validateSimulationInputs body")
  case Next
  then show ?thesis by (simp add: api_simulation_def)
next
  case (Ended r)
  with assms have "r = Status200 res dB fB sid" by (simp add: api_simulation_def)
  with Ended show ?thesis
    by (simp add: validateSimulationInputs_def split: if_splits)
qed

text \<open>
  Claim C6, for the whole route: middleware, then handler, with any count that passes
  validation, whole or not. In every run that answers 200, the penalties total is 0;
  the on-time count is the number of orders that the handler's test \<^verbatim>\<open>if (!route)\<close>
  lets through; an order that it stops is returned as it is; and every other order,
  position by position, gets a new object that is on time, without penalty, with the
  rounded base time as its delivery time, which does not exceed the base time plus
  ten. When no order is keyed by the name of a member of \<^verbatim>\<open>Object.prototype\<close>, the
  orders let through are those keyed by the identifier of a route. A run answers 200 whenever the count is a whole number that passes validation,
  that many driver documents were fetched, and no order is keyed by the name of a
  member of \<^verbatim>\<open>Object.prototype\<close>.
\<close>

theorem resolved_orders_on_time:
  assumes "''__proto__'' \<notin> routeId ` set (routeColl db)"
  shows "(\<forall>res dB fB sid.
       h_response (api_simulation body fetched db) = Status200 res dB fB sid \<longrightarrow>
         res_penalties res = 0
         \<and> res_onTimeDeliveries res
             = length (filter (resolves (build_routeMap (routeColl db))) (orderColl db))
         \<and> list_all2 (on_time_outcome (build_routeMap (routeColl db))) (orderColl db)
             (h_processed (api_simulation body fetched db))
         \<and> ((\<forall>ord \<in> set (orderColl db).
                build_routeMap (routeColl db) (assignedRoute ord) \<noteq> Some ProtoMember) \<longrightarrow>
              res_onTimeDeliveries res
                = length (filter (\<lambda>ord. route_properties (routeColl db) (assignedRoute ord)
                                          \<noteq> None) (orderColl db))))
    \<and> (validateSimulationInputs body = Next \<and> availableDrivers body = Some (of_nat n)
         \<and> n \<le> length fetched
         \<and> (\<forall>ord \<in> set (orderColl db).
               build_routeMap (routeColl db) (assignedRoute ord) \<noteq> Some ProtoMember) \<longrightarrow>
         (\<exists>res dB fB sid.
            h_response (api_simulation body fetched db) = Status200 res dB fB sid))"
proof (intro conjI allI impI)
  let ?rm = "build_routeMap (routeColl db)"
  fix res dB fB sid
  assume run: "h_response (api_simulation body fetched db) = Status200 res dB fB sid"
  let ?a = "the (availableDrivers body)"
  let ?t = "the (startTime body)"
  let ?h = "the (maxHoursPerDay body)"
  from api_simulation_200D [OF run]
  have api: "api_simulation body fetched db = simulation_handler ?a ?t ?h fetched db"
    by simp
  with run have "h_response (simulation_handler ?a ?t ?h fetched db) = Status200 res dB fB sid"
    by simp
  from handler_200D [OF this] obtain ps acc where
    po: "process_orders ?a (check_fatigue fetched) ?rm 0 (orderColl db) totals0 = Some (ps, acc)"
    and res: "res = prepare_results (orderColl db) acc"
    and ps: "h_processed (simulation_handler ?a ?t ?h fetched db) = ps"
    by auto
  from process_orders_on_time [OF po]
  have "totalPenalties acc = 0"
    and "onTimeDeliveries acc = length (filter (resolves ?rm) (orderColl db))"
    and "list_all2 (on_time_outcome ?rm) (orderColl db) ps"
    by (simp_all add: totals0_def)
  with res ps api
  show "res_penalties res = 0"
    and count: "res_onTimeDeliveries res = length (filter (resolves ?rm) (orderColl db))"
    and "list_all2 (on_time_outcome ?rm) (orderColl db)
           (h_processed (api_simulation body fetched db))"
    by (simp_all add: prepare_results_def)
  assume "\<forall>ord \<in> set (orderColl db). ?rm (assignedRoute ord) \<noteq> Some ProtoMember"
  then have "filter (resolves ?rm) (orderColl db)
      = filter (\<lambda>ord. route_properties (routeColl db) (assignedRoute ord) \<noteq> None)
          (orderColl db)"
    by (intro filter_cong refl)
       (auto simp add: resolves_def build_routeMap_def split: option.splits if_splits)
  with count
  show "res_onTimeDeliveries res
      = length (filter (\<lambda>ord. route_properties (routeColl db) (assignedRoute ord) \<noteq> None)
          (orderColl db))"
    by simp
next
  let ?rm = "build_routeMap (routeColl db)"
  assume "validateSimulationInputs body = Next \<and> availableDrivers body = Some (of_nat n)
         \<and> n \<le> length fetched
         \<and> (\<forall>ord \<in> set (orderColl db). ?rm (assignedRoute ord) \<noteq> Some ProtoMember)"
  then have nx: "validateSimulationInputs body = Next"
    and a: "availableDrivers body = Some (of_nat n)" and le: "n \<le> length fetched"
    by simp_all
  from nx a have "(1::rat) \<le> of_nat n"
    by (simp add: validateSimulationInputs_def not_num_def num_lt_def split: if_splits)
  then have pos: "0 < n" by (cases n) simp_all
  from le have enough: "\<not> (of_nat (length fetched) :: rat) < of_nat n" by simp
  from le have "n \<le> length (check_fatigue fetched)" by (simp add: check_fatigue_length)
  from process_orders_succeeds [OF pos this]
  obtain ps acc where
    "process_orders (of_nat n) (check_fatigue fetched) ?rm 0 (orderColl db) totals0
       = Some (ps, acc)"
    by blast
  from handler_done [OF enough this] nx a
  show "\<exists>res dB fB sid. h_response (api_simulation body fetched db) = Status200 res dB fB sid"
    by (simp add: api_simulation_def)
qed

theorem resolved_orders_on_time_witness:
  "\<exists>res dB fB sid.
      h_response (api_simulation
          \<lparr>availableDrivers = Some 1, startTime = Some ''09:00'', maxHoursPerDay = Some 8\<rparr>
          [amit] (sample_db [scenario_order, dangling_order]))
        = Status200 res dB fB sid
    \<and> res_penalties res = 0 \<and> res_onTimeDeliveries res = 1
    \<and> list_all2 (on_time_outcome (build_routeMap [scenario_route]))
         [scenario_order, dangling_order]
         (h_processed (api_simulation
            \<lparr>availableDrivers = Some 1, startTime = Some ''09:00'', maxHoursPerDay = Some 8\<rparr>
            [amit] (sample_db [scenario_order, dangling_order])))"
proof -
  let ?body = "\<lparr>availableDrivers = Some 1, startTime = Some ''09:00'',
                 maxHoursPerDay = Some 8\<rparr>"
  let ?db = "sample_db [scenario_order, dangling_order]"
  have nx: "validateSimulationInputs ?body = Next"
    by (simp add: msg_unfold timeRegex_test_iff hour_ok_def minute_ok_def in_range_def)
  have hyp: "validateSimulationInputs ?body = Next \<and> availableDrivers ?body = Some (of_nat 1)
      \<and> 1 \<le> length [amit]
      \<and> (\<forall>ord \<in> set (orderColl ?db).
            build_routeMap (routeColl ?db) (assignedRoute ord) \<noteq> Some ProtoMember)"
    using nx by (simp add: sample_db_def scenario_order_def dangling_order_def sample_lookups)
  note claim = resolved_orders_on_time [OF sample_no_proto, of ?body "[amit]"
      "[scenario_order, dangling_order]" 1]
  from claim hyp obtain res dB fB sid where
    run: "h_response (api_simulation ?body [amit] ?db) = Status200 res dB fB sid"
    by blast
  with claim have "res_penalties res = 0
      \<and> res_onTimeDeliveries res
          = length (filter (resolves (build_routeMap (routeColl ?db))) (orderColl ?db))
      \<and> list_all2 (on_time_outcome (build_routeMap (routeColl ?db))) (orderColl ?db)
          (h_processed (api_simulation ?body [amit] ?db))"
    by blast
  with run show ?thesis
    by (auto simp add: sample_db_def resolves_def scenario_order_def dangling_order_def
        sample_lookups)
qed

subsection \<open>Orders whose route does not resolve\<close>

lemma whole_run_completes:
  assumes "0 < n" and "n \<le> length fetched"
  shows "\<exists>res dB fB sid.
    h_response (simulation_handler (of_nat n) st mh fetched db) = Status200 res dB fB sid"
proof -
  from assms(2) have enough: "\<not> (of_nat (length fetched) :: rat) < of_nat n" by simp
  from assms(2) have "n \<le> length (check_fatigue fetched)" by (simp add: check_fatigue_length)
  from process_orders_succeeds [OF assms(1) this]
  obtain ps acc where
    "process_orders (of_nat n) (check_fatigue fetched) (build_routeMap (routeColl db)) 0
       (orderColl db) totals0 = Some (ps, acc)"
    by blast
  from handler_done [OF enough this] show ?thesis by simp
qed

lemma process_orders_insert_unresolved:
  assumes un: "routeMap (assignedRoute ord) = None"
    and run1: "process_orders a drivers routeMap i (xs @ ys) acc = Some (ps, acc1)"
    and run2: "process_orders a drivers routeMap i (xs @ ord # ys) acc = Some (qs, acc2)"
  shows "acc2 = acc1 \<and> qs ! length xs = Same ord"
proof -
  from run1 obtain ps1 b1 ps2 where
    a1: "process_orders a drivers routeMap i xs acc = Some (ps1, b1)" and
    b1: "process_orders a drivers routeMap (i + length xs) ys b1 = Some (ps2, acc1)"
    by (auto simp add: process_orders_append split: option.splits)
  from run2 a1 un obtain qs2 where
    b2: "process_orders a drivers routeMap (Suc (i + length xs)) ys b1 = Some (qs2, acc2)" and
    qs: "qs = ps1 @ Same ord # qs2"
    by (auto simp add: process_orders_append process_order_unresolved split: option.splits)
  from process_orders_acc_indep [OF b2 b1] have "acc2 = acc1" .
  moreover from a1 have "length ps1 = length xs" by (rule process_orders_length)
  with qs have "qs ! length xs = Same ord" by (simp add: nth_append)
  ultimately show ?thesis by simp
qed

text \<open>
  Claim C2, as the handler implements it, for any count. Take an order whose route
  looks up as \<^verbatim>\<open>undefined\<close>: its key is neither the identifier of a route nor the name
  of a member of \<^verbatim>\<open>Object.prototype\<close>. If the run without the order and the run with
  it both answer 200, then the order is returned as it is, without a driver; the
  totals of profit, fuel cost, penalties and bonuses, the fuel cost breakdown and the
  on-time count are those of the run without it; the number of deliveries grows by
  one, and so does the late count of the delivery breakdown, which is the number of
  orders minus the on-time count. For a whole count the run with the order answers 200
  whenever the run without it does.
\<close>

theorem unresolved_order_skipped:
  assumes proto: "''__proto__'' \<notin> routeId ` set (routeColl db)"
    and un: "build_routeMap (routeColl db) (assignedRoute ord) = None"
    and run: "h_response (simulation_handler a st mh fetched (db\<lparr>orderColl := xs @ ys\<rparr>))
               = Status200 res dB fB sid"
  shows "(\<forall>res' dB' fB' sid'.
       h_response (simulation_handler a st mh fetched (db\<lparr>orderColl := xs @ ord # ys\<rparr>))
         = Status200 res' dB' fB' sid' \<longrightarrow>
       h_processed (simulation_handler a st mh fetched (db\<lparr>orderColl := xs @ ord # ys\<rparr>))
           ! length xs = Same ord
       \<and> res_totalProfit res' = res_totalProfit res
       \<and> res_fuelCost res' = res_fuelCost res
       \<and> res_penalties res' = res_penalties res
       \<and> res_bonuses res' = res_bonuses res
       \<and> fB' = fB
       \<and> res_onTimeDeliveries res' = res_onTimeDeliveries res
       \<and> res_totalDeliveries res' = res_totalDeliveries res + 1
       \<and> dB = [(''On Time'', int (res_onTimeDeliveries res)),
               (''Late'', int (res_totalDeliveries res) - int (res_onTimeDeliveries res))]
       \<and> dB' = [(''On Time'', int (res_onTimeDeliveries res)),
                (''Late'', int (res_totalDeliveries res) - int (res_onTimeDeliveries res) + 1)])
    \<and> ((\<exists>n. 0 < n \<and> a = of_nat n) \<longrightarrow>
        (\<exists>res' dB' fB' sid'.
           h_response (simulation_handler a st mh fetched (db\<lparr>orderColl := xs @ ord # ys\<rparr>))
             = Status200 res' dB' fB' sid'))"
proof (intro conjI allI impI)
  let ?ds = "check_fatigue fetched"
  let ?rm = "build_routeMap (routeColl db)"
  let ?db2 = "db\<lparr>orderColl := xs @ ord # ys\<rparr>"
  from handler_200D [OF run] obtain ps acc where
    po: "process_orders a ?ds ?rm 0 (xs @ ys) totals0 = Some (ps, acc)" and
    res: "res = prepare_results (xs @ ys) acc" and
    dB: "dB = deliveryBreakdown (xs @ ys) acc" and
    fB: "fB = fuelCostBreakdown acc"
    by auto
  fix res' dB' fB' sid'
  assume run2: "h_response (simulation_handler a st mh fetched ?db2) = Status200 res' dB' fB' sid'"
  from handler_200D [OF run2] obtain qs acc2 where
    qo: "process_orders a ?ds ?rm 0 (xs @ ord # ys) totals0 = Some (qs, acc2)" and
    res': "res' = prepare_results (xs @ ord # ys) acc2" and
    dB': "dB' = deliveryBreakdown (xs @ ord # ys) acc2" and
    fB': "fB' = fuelCostBreakdown acc2" and
    hp: "h_processed (simulation_handler a st mh fetched ?db2) = qs"
    by auto
  from process_orders_insert_unresolved [OF un po qo]
  have acc: "acc2 = acc" and qs: "qs ! length xs = Same ord" by simp_all
  from hp qs show "h_processed (simulation_handler a st mh fetched ?db2) ! length xs = Same ord"
    by simp
  from res res' acc show "res_totalProfit res' = res_totalProfit res"
    and "res_fuelCost res' = res_fuelCost res"
    and "res_penalties res' = res_penalties res"
    and "res_bonuses res' = res_bonuses res"
    and "res_onTimeDeliveries res' = res_onTimeDeliveries res"
    and "res_totalDeliveries res' = res_totalDeliveries res + 1"
    by (simp_all add: prepare_results_def)
  from fB fB' acc show "fB' = fB" by simp
  from res dB show "dB = [(''On Time'', int (res_onTimeDeliveries res)),
               (''Late'', int (res_totalDeliveries res) - int (res_onTimeDeliveries res))]"
    by (simp add: deliveryBreakdown_def prepare_results_def)
  from res dB' acc show "dB' = [(''On Time'', int (res_onTimeDeliveries res)),
                (''Late'', int (res_totalDeliveries res) - int (res_onTimeDeliveries res) + 1)]"
    by (simp add: deliveryBreakdown_def prepare_results_def)
next
  assume "\<exists>n. 0 < n \<and> a = of_nat n"
  then obtain n where n: "0 < n" and a: "a = of_nat n" by blast
  from handler_200D [OF run] a have "n \<le> length fetched" by simp
  from whole_run_completes [OF n this] a
  show "\<exists>res' dB' fB' sid'.
           h_response (simulation_handler a st mh fetched (db\<lparr>orderColl := xs @ ord # ys\<rparr>))
             = Status200 res' dB' fB' sid'"
    by simp
qed

theorem unresolved_order_skipped_witness:
  "\<exists>res' dB' fB' sid'.
     h_response (simulation_handler 1 ''09:00'' 8 [amit]
        (sample_db [scenario_order, dangling_order])) = Status200 res' dB' fB' sid'
     \<and> h_processed (simulation_handler 1 ''09:00'' 8 [amit]
          (sample_db [scenario_order, dangling_order])) ! 1 = Same dangling_order
     \<and> res_onTimeDeliveries res' = 1 \<and> res_totalDeliveries res' = 2
     \<and> dB' = [(''On Time'', 1), (''Late'', 1)]
     \<and> res_totalProfit res' = Val 1250 \<and> res_fuelCost res' = Val 70"
proof -
  let ?db = "sample_db []"
  have un: "build_routeMap (routeColl ?db) (assignedRoute dangling_order) = None"
    by (simp add: sample_db_def dangling_order_def sample_lookups)
  obtain res dB fB sid where
    run: "h_response (simulation_handler 1 ''09:00'' 8 [amit]
            (?db\<lparr>orderColl := [scenario_order] @ []\<rparr>)) = Status200 res dB fB sid"
    using whole_run_completes [of 1 "[amit]" "''09:00''" 8 "?db\<lparr>orderColl := [scenario_order] @ []\<rparr>"]
    by auto
  from run have res: "res_onTimeDeliveries res = 1 \<and> res_totalDeliveries res = 1
      \<and> res_totalProfit res = Val 1250 \<and> res_fuelCost res = Val 70"
    by (auto simp add: sample_defs run_defs)
  note claim = unresolved_order_skipped [OF sample_no_proto un run]
  from claim have "\<exists>res' dB' fB' sid'.
     h_response (simulation_handler 1 ''09:00'' 8 [amit]
        (?db\<lparr>orderColl := [scenario_order] @ dangling_order # []\<rparr>)) = Status200 res' dB' fB' sid'"
    by (metis of_nat_1 zero_less_one)
  then obtain res' dB' fB' sid' where
    run2: "h_response (simulation_handler 1 ''09:00'' 8 [amit]
        (?db\<lparr>orderColl := [scenario_order] @ dangling_order # []\<rparr>)) = Status200 res' dB' fB' sid'"
    by blast
  with claim res show ?thesis
    by (auto simp add: sample_db_def)
qed

text \<open>
  Claim C2 as stated fails: in a run whose only order has a dangling route, the late
  count of the delivery breakdown is 1, not 0.
\<close>

theorem dangling_order_counted_late:
  "\<not> resolves (build_routeMap (routeColl (sample_db [dangling_order]))) dangling_order
   \<and> (\<exists>res fB sid. h_response (post_simulation 1 ''09:00'' 8 (sample_db [dangling_order]))
        = Status200 res [(''On Time'', 0), (''Late'', 1)] fB sid)"
  by (simp add: sample_defs run_defs resolves_def)

text \<open>
  An order keyed by the name of a member of \<^verbatim>\<open>Object.prototype\<close> is not skipped: the
  lookup is truthy, and the order is processed with \<^verbatim>\<open>NaN\<close> for its delivery time and
  its fuel cost, and counted on time.
\<close>

lemma prototype_key_processed:
  "h_processed (post_simulation 1 ''09:00'' 8 (sample_db [proto_order]))
     = [Fresh (proto_order\<lparr>assignedDriver := Some 3, actualDeliveryTime := Some NaN\<rparr>) NaN]
   \<and> map_option res_onTimeDeliveries
         (response_results (h_response (post_simulation 1 ''09:00'' 8 (sample_db [proto_order]))))
       = Some 1
   \<and> map_option res_totalProfit
         (response_results (h_response (post_simulation 1 ''09:00'' 8 (sample_db [proto_order]))))
       = Some NaN"
  by (simp add: sample_defs proto_order_def run_defs)

subsection \<open>The efficiency score\<close>

lemma fl_error_bound:
  assumes "0 \<le> x" and "x \<le> b"
  shows "\<bar>fl x - x\<bar> \<le> b / 9007199254740992"
proof -
  from fl_error [of x] assms(1) have "\<bar>fl x - x\<bar> \<le> x / 9007199254740992" by simp
  also from assms(2) have "\<dots> \<le> b / 9007199254740992" by (simp add: divide_right_mono)
  finally show ?thesis .
qed

lemma score_close:
  assumes "c \<le> len" and "0 < len"
  shows "\<bar>fl (of_int (js_round (fl (fl (fl (of_nat c / of_nat len) * 100) * 100))) / 100)
           - of_nat c / of_nat len * 100\<bar> \<le> 1 / 200 + 1 / 10 ^ 9"
proof -
  define x0 :: rat where "x0 = of_nat c / of_nat len"
  define q where "q = fl x0"
  define e1 where "e1 = fl (q * 100)"
  define m where "m = fl (e1 * 100)"
  define k where "k = js_round m"
  define s where "s = fl (of_int k / 100)"
  from assms have x0: "0 \<le> x0" "x0 \<le> 1" by (simp_all add: x0_def)
  have q0: "0 \<le> q" using x0 by (simp add: q_def fl_nonneg)
  have qe: "\<bar>q - x0\<bar> \<le> 1 / 9007199254740992"
    unfolding q_def by (rule fl_error_bound [OF x0])
  then have q2: "q * 100 \<le> 200" using x0 by linarith
  have e0: "0 \<le> e1" using q0 by (simp add: e1_def fl_nonneg)
  have ee: "\<bar>e1 - q * 100\<bar> \<le> 200 / 9007199254740992"
    unfolding e1_def by (rule fl_error_bound [OF _ q2]) (use q0 in simp)
  then have e2: "e1 * 100 \<le> 20100" using q2 by linarith
  have m0: "0 \<le> m" using e0 by (simp add: m_def fl_nonneg)
  have me: "\<bar>m - e1 * 100\<bar> \<le> 20100 / 9007199254740992"
    unfolding m_def by (rule fl_error_bound [OF _ e2]) (use e0 in simp)
  have ke: "\<bar>of_int k - m\<bar> \<le> 1 / 2"
  proof -
    have "(of_int \<lfloor>m + 1 / 2\<rfloor> :: rat) \<le> m + 1 / 2" by simp
    moreover have "m + 1 / 2 < (of_int \<lfloor>m + 1 / 2\<rfloor> :: rat) + 1" by linarith
    ultimately have "\<bar>(of_int \<lfloor>m + 1 / 2\<rfloor> :: rat) - m\<bar> \<le> 1 / 2" by linarith
    then show ?thesis by (simp only: k_def js_round_def)
  qed
  from ke m0 have "(- 1 :: rat) < of_int k" by linarith
  then have "- 1 < k" by (simp only: of_int_less_iff [symmetric, where ?'a = rat])
  then have k0: "(0::rat) \<le> of_int k / 100" by simp
  from ke me e2 have k2: "(of_int k :: rat) / 100 \<le> 202" by linarith
  have se: "\<bar>s - of_int k / 100\<bar> \<le> 202 / 9007199254740992"
    unfolding s_def by (rule fl_error_bound [OF k0 k2])
  have "\<bar>s - x0 * 100\<bar> \<le> 1 / 200 + 1 / 10 ^ 9"
  proof -
    from qe have 1: "q - x0 \<le> 1 / 9007199254740992" "x0 - q \<le> 1 / 9007199254740992"
      by linarith+
    from ee have 2: "e1 - q * 100 \<le> 200 / 9007199254740992"
      "q * 100 - e1 \<le> 200 / 9007199254740992"
      by linarith+
    from me have 3: "m - e1 * 100 \<le> 20100 / 9007199254740992"
      "e1 * 100 - m \<le> 20100 / 9007199254740992"
      by linarith+
    from ke have 4: "of_int k - m \<le> 1 / 2" "m - of_int k \<le> 1 / 2"
      by linarith+
    from se have 5: "s - of_int k / 100 \<le> 202 / 9007199254740992"
      "of_int k / 100 - s \<le> 202 / 9007199254740992"
      by linarith+
    from 1 2 3 4 5 have "s - x0 * 100 \<le> 1 / 200 + 1 / 10 ^ 9"
      and "x0 * 100 - s \<le> 1 / 200 + 1 / 10 ^ 9"
      by simp_all
    then show ?thesis by linarith
  qed
  then have "\<bar>s - x0 * 100\<bar> \<le> 1 / 200 + 1 / 10 ^ 9" .
  then show ?thesis
    by (simp only: s_def k_def m_def e1_def q_def x0_def)
qed

lemma js_round_0: "js_round 0 = 0"
  by (simp add: js_round_def floor_eq_iff)

lemma prepare_score:
  "orders \<noteq> [] \<Longrightarrow>
   res_efficiencyScore (prepare_results orders acc)
     = fl (of_int (js_round
         (fl (fl (fl (of_nat (onTimeDeliveries acc) / of_nat (length orders)) * 100) * 100)))
          / 100)"
  by (simp add: prepare_results_def efficiencyScore_def)

text \<open>
  Claim C8, as the handler implements it. In a run that answers 200 the total number of
  deliveries is the number of orders, resolved or not, and the on-time count does not
  exceed it. With at least one order, the efficiency score is the on-time count divided
  by that number, times 100, times 100, rounded to a whole number and divided by 100,
  all in double arithmetic; it lies within half a hundredth, plus a rounding error
  of less than a billionth, of the exact percentage. With no orders the score and the totals
  of profit, fuel cost, penalties and bonuses are 0.
\<close>

theorem efficiency_score:
  assumes "h_response (simulation_handler a st mh fetched db) = Status200 res dB fB sid"
  shows "res_totalDeliveries res = length (orderColl db)
    \<and> res_onTimeDeliveries res \<le> length (orderColl db)
    \<and> (orderColl db \<noteq> [] \<longrightarrow>
         res_efficiencyScore res
           = fl (of_int (js_round
               (fl (fl (fl (of_nat (res_onTimeDeliveries res)
                              / of_nat (length (orderColl db))) * 100) * 100))) / 100)
         \<and> \<bar>res_efficiencyScore res
              - of_nat (res_onTimeDeliveries res) / of_nat (length (orderColl db)) * 100\<bar>
             \<le> 1 / 200 + 1 / 10 ^ 9)
    \<and> (orderColl db = [] \<longrightarrow>
         res_efficiencyScore res = 0 \<and> res_totalProfit res = Val 0 \<and> res_fuelCost res = Val 0
         \<and> res_penalties res = 0 \<and> res_bonuses res = 0)"
proof -
  let ?os = "orderColl db"
  from handler_200D [OF assms] obtain ps acc where
    po: "process_orders a (check_fatigue fetched) (build_routeMap (routeColl db)) 0 ?os totals0
           = Some (ps, acc)" and
    res: "res = prepare_results ?os acc"
    by auto
  have total: "res_totalDeliveries res = length ?os"
    by (simp add: res prepare_results_def)
  have on: "res_onTimeDeliveries res = onTimeDeliveries acc"
    by (simp add: res prepare_results_def)
  from process_orders_on_time [OF po]
  have "onTimeDeliveries acc = length (filter (resolves (build_routeMap (routeColl db))) ?os)"
    by (simp add: totals0_def)
  then have le: "res_onTimeDeliveries res \<le> length ?os"
    by (simp add: on)
  have score: "res_efficiencyScore res
           = fl (of_int (js_round
               (fl (fl (fl (of_nat (res_onTimeDeliveries res) / of_nat (length ?os)) * 100)
                  * 100))) / 100)" if "?os \<noteq> []"
    using prepare_score [OF that, of acc] by (simp only: res [symmetric] on)
  have close: "\<bar>res_efficiencyScore res
              - of_nat (res_onTimeDeliveries res) / of_nat (length ?os) * 100\<bar>
             \<le> 1 / 200 + 1 / 10 ^ 9" if "?os \<noteq> []"
  proof -
    from that have "0 < length ?os" by simp
    from score_close [OF le this] show ?thesis
      by (simp only: score [OF that])
  qed
  have empty: "res_efficiencyScore res = 0 \<and> res_totalProfit res = Val 0
         \<and> res_fuelCost res = Val 0 \<and> res_penalties res = 0 \<and> res_bonuses res = 0"
    if "?os = []"
  proof -
    from that po have "acc = totals0" by simp
    with that show ?thesis
      by (simp add: res prepare_results_def efficiencyScore_def js_round_0 totals0_def fl_def)
  qed
  from total le score close empty show ?thesis by blast
qed

theorem efficiency_score_witness:
  "\<exists>res dB fB sid.
     h_response (simulation_handler 1 ''09:00'' 8 [amit]
        (sample_db [scenario_order, dangling_order])) = Status200 res dB fB sid
     \<and> res_onTimeDeliveries res = 1 \<and> res_totalDeliveries res = 2
     \<and> \<bar>res_efficiencyScore res - 50\<bar> \<le> 1 / 200 + 1 / 10 ^ 9"
proof -
  let ?db = "sample_db [scenario_order, dangling_order]"
  obtain res dB fB sid where
    run: "h_response (simulation_handler 1 ''09:00'' 8 [amit] ?db) = Status200 res dB fB sid"
    using whole_run_completes [of 1 "[amit]" "''09:00''" 8 ?db] by auto
  from run have on: "res_onTimeDeliveries res = 1"
    by (auto simp add: sample_defs run_defs)
  from efficiency_score [OF run] on run show ?thesis
    by (auto simp add: sample_db_def)
qed

lemma score_23_160:
  "fl (of_int (js_round (fl (fl (fl (of_nat 23 / of_nat 160) * 100) * 100))) / 100)
     = 8089590830664253 / 562949953421312"
  by code_simp

text \<open>
  Claim C8 as stated fails: with 23 orders on time out of 160 the exact percentage is
  14.375, which rounds half up to 14.38; the doubles give 1437.4999999999998 before
  \<^verbatim>\<open>Math.round\<close>, and the score is the double nearest to 14.37.
\<close>

theorem efficiency_not_rounded_half_up:
  "map_option res_efficiencyScore
     (response_results (h_response (post_simulation 1 ''09:00'' 8
        (sample_db (replicate 23 scenario_order @ replicate 137 dangling_order)))))
     = Some (8089590830664253 / 562949953421312)
   \<and> (8089590830664253 / 562949953421312 :: rat) < 1437 / 100
   \<and> of_int \<lfloor>(23 / 160 :: rat) * 100 * 100 + 1 / 2\<rfloor> / 100 = (1438 / 100 :: rat)"
proof -
  let ?os = "replicate 23 scenario_order @ replicate 137 dangling_order"
  let ?db = "sample_db ?os"
  have handler: "post_simulation 1 ''09:00'' 8 ?db = simulation_handler 1 ''09:00'' 8 [amit] ?db"
    by (simp add: post_simulation_def limit_docs_def sample_db_def)
  obtain res dB fB sid where
    run: "h_response (simulation_handler 1 ''09:00'' 8 [amit] ?db) = Status200 res dB fB sid"
    using whole_run_completes [of 1 "[amit]" "''09:00''" 8 ?db] by auto
  from handler_200D [OF run] obtain ps acc where
    po: "process_orders 1 (check_fatigue [amit]) (build_routeMap (routeColl ?db)) 0
           (orderColl ?db) totals0 = Some (ps, acc)" and
    res: "res = prepare_results (orderColl ?db) acc"
    by auto
  from process_orders_on_time [OF po]
  have on: "onTimeDeliveries acc = 23"
    by (simp add: totals0_def sample_db_def resolves_def scenario_order_def dangling_order_def
        sample_lookups)
  have len: "length (orderColl ?db) = 160" and ne: "orderColl ?db \<noteq> []"
    by (simp_all add: sample_db_def)
  have "res_efficiencyScore res = 8089590830664253 / 562949953421312"
    by (simp only: res prepare_score [OF ne] on len score_23_160)
  with run handler have 1: "map_option res_efficiencyScore
     (response_results (h_response (post_simulation 1 ''09:00'' 8 ?db)))
     = Some (8089590830664253 / 562949953421312)"
    by simp
  have 2: "(8089590830664253 / 562949953421312 :: rat) < 1437 / 100" by simp
  have "\<lfloor>(23 / 160 :: rat) * 100 * 100 + 1 / 2\<rfloor> = 1438" by (simp add: floor_eq_iff)
  then have 3: "of_int \<lfloor>(23 / 160 :: rat) * 100 * 100 + 1 / 2\<rfloor> / 100 = (1438 / 100 :: rat)"
    by simp
  from 1 2 3 show ?thesis by blast
qed

subsection \<open>Counts that are not whole\<close>

lemma rem_0: "js_rem 0 (5 / 2) = Some 0"
  by (simp add: js_rem_def)

lemma rem_1: "js_rem (Suc 0) (5 / 2) = Some 1"
  by code_simp

lemma rem_2: "js_rem (Suc (Suc 0)) (5 / 2) = Some 2"
  by code_simp

lemma rem_3: "js_rem (Suc (Suc (Suc 0))) (5 / 2) = Some (1 / 2)"
  by code_simp

lemma floor_half: "\<lfloor>1 / 2 :: rat\<rfloor> = 0"
  by (simp add: floor_eq_iff)

lemmas fractional_defs = simulation_handler_def check_fatigue_def
  build_routeMap_def route_properties_def proto_names_def process_order_def driver_at_def
  rem_0 rem_1 rem_2 rem_3 floor_half totals0_def calculateDeliveryTime_def
  calculateFuelCost_def js_round_def floor_eq_iff prepare_results_def deliveryBreakdown_def
  fuelCostBreakdown_def traffic_name_def Let_def



text \<open>
  What the handler does next with a count of \<open>5/2\<close>: from the order at position 3 on,
  the driver index \<open>3 mod 5/2 = 1/2\<close> is not a position of the array, and an order
  whose route resolves there makes the run fail; and with two documents fetched the
  count is not reached.
\<close>

lemma fractional_index_throws:
  "h_response (simulation_handler (5 / 2) ''09:00'' 8 [amit, raj, priya]
     (sample_db [scenario_order, scenario_order, scenario_order, scenario_order]))
   = Status500 ''Simulation failed''"
  by (simp add: sample_defs fractional_defs)

lemma show_fraction: "show_number (5 / 2) = ''2.5''"
  by code_simp

lemma fractional_count_insufficient:
  "h_response (simulation_handler (5 / 2) ''09:00'' 8 [amit, raj] (sample_db [scenario_order]))
   = Status400 ''Not enough drivers available. Found 2, requested 2.5''"
  by (simp add: simulation_handler_def show_fraction show_nat.simps digit_char_def)

end
